theory Spec2Isabelle
  imports Main "HOL-Library.Word" "HOL-Library.AList"
begin

section \<open>Byte streams and the struct module\<close>

text \<open>
  The loader of \<^verbatim>\<open>gensim/models/fasttext.py\<close> reads Facebook's binary model format from a
  file handle opened in binary mode. The handle is modelled by the list of the bytes that are
  still unread; \<^verbatim>\<open>file_handle.read(n)\<close> returns at most \<^verbatim>\<open>n\<close> of them and advances.
  Integers are decoded as on a little-endian host (the format is native-endian; the hosts the
  files come from are little-endian), signed, two's complement.
\<close>

type_synonym byte = "8 word"

datatype value_error =
    IncompatibleFloatSize nat    \<comment> \<open>\<^verbatim>\<open>ValueError("Incompatible float size: %r")\<close>\<close>
  | CannotReshape                \<comment> \<open>numpy: cannot reshape array of size n into shape (r, c)\<close>
  | NegativeDimensions           \<comment> \<open>numpy: negative dimensions are not allowed\<close>
  | NotEnoughValuesToUnpack      \<comment> \<open>\<^verbatim>\<open>rows, columns = m.shape\<close> on an array that is not 2-D\<close>
  | DimensionMismatch            \<comment> \<open>numpy \<^verbatim>\<open>vstack\<close> of arrays with different row widths\<close>

datatype error =
    StructError                  \<comment> \<open>\<^verbatim>\<open>struct.error\<close>: the buffer is shorter than the format\<close>
  | AssertionError
  | ValueError value_error
  | NotImplementedError          \<comment> \<open>supervised fastText models are not supported\<close>
  | NameError                    \<comment> \<open>a name that is bound nowhere is evaluated\<close>
  | UnicodeDecodeError
  | RuntimeError
  | AttributeError
  | IndexError
  | OverflowError                \<comment> \<open>an integer that does not fit the platform's \<^verbatim>\<open>ssize_t\<close>\<close>

definition file_read :: "nat \<Rightarrow> byte list \<Rightarrow> byte list \<times> byte list" where
  "file_read n s = (take n s, drop n s)"

text \<open>
  \<^verbatim>\<open>_struct_unpack(file_handle, fmt)\<close> reads \<^verbatim>\<open>struct.calcsize(fmt)\<close> bytes and hands them
  to \<^verbatim>\<open>struct.unpack\<close>, which raises \<^verbatim>\<open>struct.error\<close> unless the buffer has exactly that
  size. The size of every format the loader uses is written at its call
  (none of them needs alignment padding); the fields are decoded from the buffer below.
\<close>

definition struct_unpack :: "nat \<Rightarrow> byte list \<Rightarrow> error + (byte list \<times> byte list)" where
  "struct_unpack num_bytes s =
     (case file_read num_bytes s of
        (buf, s') \<Rightarrow> if length buf = num_bytes then Inr (buf, s') else Inl StructError)"

fun le_uint :: "byte list \<Rightarrow> nat" where
  "le_uint [] = 0"
| "le_uint (b # bs) = unat b + 256 * le_uint bs"

definition unpack_i :: "byte list \<Rightarrow> int" where
  \<comment> \<open>format code \<^verbatim>\<open>i\<close>: a signed 32-bit integer\<close>
  "unpack_i bs = sint (word_of_nat (le_uint bs) :: 32 word)"

definition unpack_q :: "byte list \<Rightarrow> int" where
  \<comment> \<open>format code \<^verbatim>\<open>q\<close>: a signed 64-bit integer\<close>
  "unpack_q bs = sint (word_of_nat (le_uint bs) :: 64 word)"

definition unpack_d :: "byte list \<Rightarrow> 64 word" where
  \<comment> \<open>format code \<^verbatim>\<open>d\<close>: a 64-bit float, kept as its IEEE-754 bit pattern\<close>
  "unpack_d bs = word_of_nat (le_uint bs)"

primrec unpack_ints :: "nat \<Rightarrow> byte list \<Rightarrow> int list" where
  \<comment> \<open>\<^verbatim>\<open>n\<close> consecutive fields of code \<^verbatim>\<open>i\<close>\<close>
  "unpack_ints 0 buf = []"
| "unpack_ints (Suc n) buf = unpack_i (take 4 buf) # unpack_ints n (drop 4 buf)"

text \<open>The writer's side of the same layout, used to state what a file contains.\<close>

primrec le_bytes :: "nat \<Rightarrow> nat \<Rightarrow> byte list" where
  "le_bytes 0 x = []"
| "le_bytes (Suc n) x = of_nat (x mod 256) # le_bytes n (x div 256)"

definition pack_i :: "32 word \<Rightarrow> byte list" where
  "pack_i w = le_bytes 4 (unat w)"

definition pack_q :: "64 word \<Rightarrow> byte list" where
  "pack_q w = le_bytes 8 (unat w)"

definition pack_d :: "64 word \<Rightarrow> byte list" where
  "pack_d w = le_bytes 8 (unat w)"

section \<open>Model parameters: the header of the binary\<close>

definition FASTTEXT_FILEFORMAT_MAGIC :: int where
  "FASTTEXT_FILEFORMAT_MAGIC = 793712314"

text \<open>
  The names bound by the first lines of \<^verbatim>\<open>FastText._load_model_params\<close>
  (the two fields named \<^verbatim>\<open>_\<close> are dropped).
\<close>

record model_params =
  new_format :: bool
  dim :: int
  ws :: int
  epoch :: int
  min_count :: int
  neg :: int
  loss :: int
  model :: int
  bucket :: int
  minn :: int
  maxn :: int
  t :: "64 word"

definition params_of :: "bool \<Rightarrow> int \<Rightarrow> int \<Rightarrow> int list \<Rightarrow> 64 word \<Rightarrow> model_params" where
  \<comment> \<open>\<^verbatim>\<open>epoch, min_count, neg, _, loss, model, bucket, minn, maxn, _, t\<close>\<close>
  "params_of nf d w rest_ints tv =
     \<lparr>new_format = nf, dim = d, ws = w, epoch = rest_ints ! 0, min_count = rest_ints ! 1,
      neg = rest_ints ! 2, loss = rest_ints ! 4, model = rest_ints ! 5, bucket = rest_ints ! 6,
      minn = rest_ints ! 7, maxn = rest_ints ! 8, t = tv\<rparr>"

definition read_params :: "byte list \<Rightarrow> error + (model_params \<times> byte list)" where
  \<comment> \<open>\<^verbatim>\<open>'@2i'\<close> is 8 bytes, \<^verbatim>\<open>'@12i1d'\<close> is 56 and \<^verbatim>\<open>'@10i1d'\<close> is 48\<close>
  "read_params s =
     (case struct_unpack 8 s of
        Inl e \<Rightarrow> Inl e
      | Inr (b, s1) \<Rightarrow>
          (let magic = unpack_ints 2 b ! 0; version = unpack_ints 2 b ! 1 in
           if magic = FASTTEXT_FILEFORMAT_MAGIC then
             (case struct_unpack 56 s1 of
                Inl e \<Rightarrow> Inl e
              | Inr (c, s2) \<Rightarrow>
                  Inr (params_of True (unpack_ints 12 c ! 0) (unpack_ints 12 c ! 1)
                         (drop 2 (unpack_ints 12 c)) (unpack_d (drop 48 c)), s2))
           else
             (case struct_unpack 48 s1 of
                Inl e \<Rightarrow> Inl e
              | Inr (c, s2) \<Rightarrow>
                  Inr (params_of False magic version
                         (unpack_ints 10 c) (unpack_d (drop 40 c)), s2))))"

section \<open>The vocabulary section\<close>

text \<open>
  The fields of \<^verbatim>\<open>FastTextVocab\<close> that \<^verbatim>\<open>_load_vocab\<close> sets. The dictionary
  \<^verbatim>\<open>raw_vocab\<close> is an association list in insertion order; assigning to a key that is
  present replaces its value in place, as a Python dict does. \<^verbatim>\<open>old_vocab_len\<close> exists
  only once \<^verbatim>\<open>build_vocab\<close> or \<^verbatim>\<open>_set_train_params\<close> has set it.
\<close>

record 'w ft_vocab =
  vocab_size :: int
  nwords :: int
  raw_vocab :: "('w \<times> int) list"
  sample :: "64 word"
  v_min_count :: int
  old_vocab_len :: "nat option"

text \<open>
  The inner loop of \<^verbatim>\<open>_load_vocab\<close>:
  \<^verbatim>\<open>
      while char_byte != b'\x00':
          word_bytes += char_byte
          char_byte = file_handle.read(1)
  \<close>
  At the end of the file \<^verbatim>\<open>read(1)\<close> returns \<^verbatim>\<open>b''\<close>, which differs from
  \<^verbatim>\<open>b'\x00'\<close>: the loop then never ends. Not returning is the value \<open>None\<close>.
\<close>

partial_function (option) read_word ::
  "byte list \<Rightarrow> byte list \<Rightarrow> byte list \<Rightarrow> (byte list \<times> byte list) option" where
  "read_word word_bytes char_byte s =
     (if char_byte \<noteq> [0]
      then read_word (word_bytes @ char_byte) (fst (file_read 1 s)) (snd (file_read 1 s))
      else Some (word_bytes, s))"

text \<open>
  The body of \<^verbatim>\<open>for i in range(v.vocab_size)\<close>, run \<open>n\<close> times. The codec
  \<^verbatim>\<open>word_bytes.decode(encoding)\<close> is the caller's: \<open>decode\<close> returns \<open>None\<close> where it
  raises. \<^verbatim>\<open>'@qb'\<close> is 9 bytes, the count and one byte that is dropped.
\<close>

primrec load_entries ::
  "(byte list \<Rightarrow> 'w option) \<Rightarrow> nat \<Rightarrow> ('w \<times> int) list \<Rightarrow> byte list \<Rightarrow>
     (error + ('w \<times> int) list \<times> byte list) option" where
  "load_entries decode 0 rv s = Some (Inr (rv, s))"
| "load_entries decode (Suc n) rv s =
     (case read_word [] (fst (file_read 1 s)) (snd (file_read 1 s)) of
        None \<Rightarrow> None
      | Some (word_bytes, s1) \<Rightarrow>
          (case decode word_bytes of
             None \<Rightarrow> Some (Inl UnicodeDecodeError)
           | Some word \<Rightarrow>
               (case struct_unpack 9 s1 of
                  Inl e \<Rightarrow> Some (Inl e)
                | Inr (buf, s2) \<Rightarrow>
                    load_entries decode n (AList.update word (unpack_q (take 8 buf)) rv) s2)))"

primrec skip_pairs :: "nat \<Rightarrow> byte list \<Rightarrow> error + byte list" where
  \<comment> \<open>\<^verbatim>\<open>for j in range(pruneidx_size): _struct_unpack(file_handle, '@2i')\<close>\<close>
  "skip_pairs 0 s = Inr s"
| "skip_pairs (Suc n) s =
     (case struct_unpack 8 s of Inl e \<Rightarrow> Inl e | Inr (buf, s') \<Rightarrow> skip_pairs n s')"

text \<open>
  \<^verbatim>\<open>_load_vocab(file_handle, new_format, sample, min_count, encoding)\<close>.
  \<^verbatim>\<open>range(k)\<close> is empty for a negative \<^verbatim>\<open>k\<close>. The name \<^verbatim>\<open>pruneidx_size\<close> is bound
  only in the new format, where alone it is used.
\<close>

definition load_vocab ::
  "(byte list \<Rightarrow> 'w option) \<Rightarrow> byte list \<Rightarrow> bool \<Rightarrow> 64 word \<Rightarrow> int \<Rightarrow>
     (error + 'w ft_vocab \<times> byte list) option" where
  "load_vocab decode s new_fmt smp min_cnt =
     (case struct_unpack 12 s of
        Inl e \<Rightarrow> Some (Inl e)
      | Inr (b, s1) \<Rightarrow>
          (let v = \<lparr>vocab_size = unpack_ints 3 b ! 0, nwords = unpack_ints 3 b ! 1, raw_vocab = [],
                    sample = smp, v_min_count = min_cnt, old_vocab_len = None\<rparr>;
               nlabels = unpack_ints 3 b ! 2 in
           if nlabels > 0 then Some (Inl NotImplementedError)
           else
             (case struct_unpack 8 s1 of
                Inl e \<Rightarrow> Some (Inl e)
              | Inr (ntokens, s2) \<Rightarrow>
                  (case (if new_fmt
                         then (case struct_unpack 8 s2 of
                                 Inl e \<Rightarrow> Inl e
                               | Inr (pb, s3) \<Rightarrow> Inr (Some (unpack_q pb), s3))
                         else Inr (None, s2)) of
                     Inl e \<Rightarrow> Some (Inl e)
                   | Inr (pruneidx_size, s3) \<Rightarrow>
                       (case load_entries decode (nat (vocab_size v)) [] s3 of
                          None \<Rightarrow> None
                        | Some (Inl e) \<Rightarrow> Some (Inl e)
                        | Some (Inr (rv, s4)) \<Rightarrow>
                            (case (case pruneidx_size of
                                     Some k \<Rightarrow> skip_pairs (nat k) s4
                                   | None \<Rightarrow> Inr s4) of
                               Inl e \<Rightarrow> Some (Inl e)
                             | Inr s5 \<Rightarrow> Some (Inr (v\<lparr>raw_vocab := rv\<rparr>, s5))))))))"

text \<open>
  The layout of the vocabulary section as the specification words it (section 4.3): the
  pruned-index pairs are skipped right after their count, before the entries, and the number
  of entries is the second integer, the word count. It is compared with \<open>load_vocab\<close> below.
\<close>

definition read_vocabulary_spec ::
  "(byte list \<Rightarrow> 'w option) \<Rightarrow> byte list \<Rightarrow> bool \<Rightarrow> 64 word \<Rightarrow> int \<Rightarrow>
     (error + 'w ft_vocab \<times> byte list) option" where
  "read_vocabulary_spec decode s new_fmt smp min_cnt =
     (case struct_unpack 12 s of
        Inl e \<Rightarrow> Some (Inl e)
      | Inr (b, s1) \<Rightarrow>
          (let v = \<lparr>vocab_size = unpack_ints 3 b ! 0, nwords = unpack_ints 3 b ! 1, raw_vocab = [],
                    sample = smp, v_min_count = min_cnt, old_vocab_len = None\<rparr>;
               nlabels = unpack_ints 3 b ! 2 in
           if nlabels > 0 then Some (Inl NotImplementedError)
           else
             (case struct_unpack 8 s1 of
                Inl e \<Rightarrow> Some (Inl e)
              | Inr (ntokens, s2) \<Rightarrow>
                  (case (if new_fmt
                         then (case struct_unpack 8 s2 of
                                 Inl e \<Rightarrow> Inl e
                               | Inr (pb, s3) \<Rightarrow> skip_pairs (nat (unpack_q pb)) s3)
                         else Inr s2) of
                     Inl e \<Rightarrow> Some (Inl e)
                   | Inr s4 \<Rightarrow>
                       (case load_entries decode (nat (nwords v)) [] s4 of
                          None \<Rightarrow> None
                        | Some (Inl e) \<Rightarrow> Some (Inl e)
                        | Some (Inr (rv, s5)) \<Rightarrow> Some (Inr (v\<lparr>raw_vocab := rv\<rparr>, s5)))))))"

text \<open>
  The writer's side of the section, to state what a file contains: an entry is the bytes of
  a word, a zero byte, the 64-bit count and one more byte; a pruned-index pair is two 32-bit
  integers. \<open>store_entries\<close> is the dictionary that \<^verbatim>\<open>raw_vocab[word] = count\<close>, done for
  the entries in their order, builds.
\<close>

definition pack_entry :: "byte list \<times> 64 word \<times> byte \<Rightarrow> byte list" where
  "pack_entry e = (case e of (w, c, f) \<Rightarrow> w @ [0] @ pack_q c @ [f])"

definition pack_entries :: "(byte list \<times> 64 word \<times> byte) list \<Rightarrow> byte list" where
  "pack_entries es = concat (map pack_entry es)"

definition pack_pairs :: "(32 word \<times> 32 word) list \<Rightarrow> byte list" where
  "pack_pairs ps = concat (map (\<lambda>(a, b). pack_i a @ pack_i b) ps)"

definition well_formed_entry ::
  "(byte list \<Rightarrow> 'w option) \<Rightarrow> byte list \<times> 64 word \<times> byte \<Rightarrow> bool" where
  "well_formed_entry decode e = (case e of (w, c, f) \<Rightarrow> 0 \<notin> set w \<and> decode w \<noteq> None)"

definition store_entries ::
  "(byte list \<Rightarrow> 'w option) \<Rightarrow> (byte list \<times> 64 word \<times> byte) list \<Rightarrow>
     ('w \<times> int) list \<Rightarrow> ('w \<times> int) list" where
  "store_entries decode es rv =
     fold (\<lambda>e d. case e of (w, c, f) \<Rightarrow>
             (case decode w of Some word \<Rightarrow> AList.update word (sint c) d | None \<Rightarrow> d)) es rv"

definition decoded ::
  "(byte list \<Rightarrow> 'w option) \<Rightarrow> (byte list \<times> 64 word \<times> byte) list \<Rightarrow> ('w \<times> int) list" where
  \<comment> \<open>the pairs of a word and its count, in the order of the entries\<close>
  "decoded decode es =
     concat (map (\<lambda>e. case e of (w, c, f) \<Rightarrow>
                    (case decode w of Some word \<Rightarrow> [(word, sint c)] | None \<Rightarrow> [])) es)"

section \<open>numpy arrays\<close>

text \<open>
  The arrays of the module are one- or two-dimensional. A two-dimensional array carries its
  number of columns, since it may have no row. A loaded matrix holds 4-byte or 8-byte floats,
  kept as bit patterns; a lock-factor mask is made by \<^verbatim>\<open>ones(..., dtype=REAL)\<close>, of
  32-bit floats, and \<open>REAL_one\<close> is the bit pattern of \<^verbatim>\<open>1.0\<close>.
\<close>

datatype 'a ndarray = Array1 "'a list" | Array2 nat "'a list list"

datatype np_float = Float32 "32 word" | Float64 "64 word"

type_synonym REAL = "32 word"

definition REAL_one :: REAL where
  "REAL_one = 0x3F800000"

fun len :: "'a ndarray \<Rightarrow> nat" where
  "len (Array1 xs) = length xs"
| "len (Array2 c rws) = length rws"

fun shape :: "'a ndarray \<Rightarrow> nat list" where
  "shape (Array1 xs) = [length xs]"
| "shape (Array2 c rws) = [length rws, c]"

definition ones1 :: "int \<Rightarrow> error + REAL ndarray" where
  \<comment> \<open>\<^verbatim>\<open>ones(n, dtype=REAL)\<close>\<close>
  "ones1 n = (if n < 0 then Inl (ValueError NegativeDimensions)
              else Inr (Array1 (replicate (nat n) REAL_one)))"

definition ones2 :: "int \<Rightarrow> int \<Rightarrow> error + REAL ndarray" where
  \<comment> \<open>\<^verbatim>\<open>ones((r, c), dtype=REAL)\<close>\<close>
  "ones2 r c = (if r < 0 \<or> c < 0 then Inl (ValueError NegativeDimensions)
                else Inr (Array2 (nat c) (replicate (nat r) (replicate (nat c) REAL_one))))"

fun atleast_2d :: "'a ndarray \<Rightarrow> 'a ndarray" where
  "atleast_2d (Array1 xs) = Array2 (length xs) [xs]"
| "atleast_2d (Array2 c rws) = Array2 c rws"

definition vstack :: "'a ndarray \<Rightarrow> 'a ndarray \<Rightarrow> error + 'a ndarray" where
  \<comment> \<open>\<^verbatim>\<open>vstack([a, b])\<close>\<close>
  "vstack a b =
     (case (atleast_2d a, atleast_2d b) of
        (Array2 c1 r1, Array2 c2 r2) \<Rightarrow>
          if c1 = c2 then Inr (Array2 c1 (r1 @ r2)) else Inl (ValueError DimensionMismatch)
      | _ \<Rightarrow> Inl (ValueError DimensionMismatch))"

definition py_index :: "nat \<Rightarrow> int \<Rightarrow> nat option" where
  \<comment> \<open>an index into a sequence of length \<open>n\<close>; a negative one counts from the end\<close>
  "py_index n i = (if 0 \<le> i \<and> i < int n then Some (nat i)
                   else if - int n \<le> i \<and> i < 0 then Some (nat (i + int n)) else None)"

definition take_rows :: "'a ndarray \<Rightarrow> int list \<Rightarrow> error + 'a ndarray" where
  \<comment> \<open>\<^verbatim>\<open>a.take(indices, axis=0)\<close>\<close>
  "take_rows a indices =
     (if list_all (\<lambda>i. py_index (len a) i \<noteq> None) indices
      then (case a of
              Array1 xs \<Rightarrow> Inr (Array1 (map (\<lambda>i. xs ! the (py_index (length xs) i)) indices))
            | Array2 c rws \<Rightarrow>
                Inr (Array2 c (map (\<lambda>i. rws ! the (py_index (length rws) i)) indices)))
      else Inl IndexError)"

text \<open>
  \<^verbatim>\<open>_pad_ones(m, new_rows)\<close>: \<^verbatim>\<open>rows, columns = m.shape\<close> asks for a shape of two
  entries.
\<close>

definition pad_ones :: "REAL ndarray \<Rightarrow> int \<Rightarrow> error + REAL ndarray" where
  "pad_ones m new_rows =
     (case m of
        Array1 xs \<Rightarrow> Inl (ValueError NotEnoughValuesToUnpack)
      | Array2 columns rws \<Rightarrow>
          (case ones2 new_rows (int columns) of
             Inl e \<Rightarrow> Inl e
           | Inr suffix \<Rightarrow> vstack m suffix))"

section \<open>Matrices of the binary\<close>

definition unpack_float :: "nat \<Rightarrow> byte list \<Rightarrow> np_float" where
  "unpack_float float_size bs =
     (if float_size = 4 then Float32 (word_of_nat (le_uint bs)) else Float64 (word_of_nat (le_uint bs)))"

primrec unpack_items :: "nat \<Rightarrow> nat \<Rightarrow> byte list \<Rightarrow> np_float list" where
  "unpack_items float_size 0 s = []"
| "unpack_items float_size (Suc n) s =
     unpack_float float_size (take float_size s) # unpack_items float_size n (drop float_size s)"

definition fromfile ::
  "nat \<Rightarrow> int \<Rightarrow> byte list \<Rightarrow> error + np_float list \<times> byte list" where
  \<comment> \<open>\<^verbatim>\<open>np.fromfile(file_handle, dtype=dtype, count=count)\<close>: the count is converted to a
      signed 64-bit size, which raises \<^verbatim>\<open>OverflowError\<close> outside its range; a negative count
      reads every whole item that is left; a count the file cannot fill gives the items
      there are. The memory of the host is not a limit here.\<close>
  "fromfile float_size count s =
     (if count < - (2 ^ 63) \<or> 2 ^ 63 \<le> count then Inl OverflowError
      else
        (let avail = length s div float_size;
             n = (if count < 0 then avail else min (nat count) avail)
         in Inr (unpack_items float_size n s,
                 if 0 \<le> count \<and> avail < nat count then [] else drop (n * float_size) s)))"

primrec split_rows :: "nat \<Rightarrow> nat \<Rightarrow> 'a list \<Rightarrow> 'a list list" where
  "split_rows c 0 xs = []"
| "split_rows c (Suc r) xs = take c xs # split_rows c r (drop c xs)"

definition reshape :: "'a list \<Rightarrow> int \<Rightarrow> int \<Rightarrow> error + 'a ndarray" where
  \<comment> \<open>\<^verbatim>\<open>matrix.reshape((r, c))\<close>: one dimension may be negative and is then inferred from
      the number of items\<close>
  "reshape xs r c =
     (if 0 \<le> r \<and> 0 \<le> c then
        (if nat r * nat c = length xs then Inr (Array2 (nat c) (split_rows (nat c) (nat r) xs))
         else Inl (ValueError CannotReshape))
      else if r < 0 \<and> 0 < c \<and> length xs mod nat c = 0 then
        Inr (Array2 (nat c) (split_rows (nat c) (length xs div nat c) xs))
      else if c < 0 \<and> 0 < r \<and> length xs mod nat r = 0 then
        Inr (Array2 (length xs div nat r) (split_rows (length xs div nat r) (nat r) xs))
      else Inl (ValueError CannotReshape))"

text \<open>
  \<^verbatim>\<open>_load_matrix(file_handle, new_format, expected_vector_size)\<close>. \<^verbatim>\<open>'@?'\<close> is one byte
  and \<^verbatim>\<open>'@2q'\<close> sixteen. \<open>float_size\<close> stands for \<^verbatim>\<open>struct.calcsize('@f')\<close>, the size
  of a C float on the host that runs the loader.
\<close>

definition load_matrix ::
  "nat \<Rightarrow> byte list \<Rightarrow> bool \<Rightarrow> int option \<Rightarrow> error + np_float ndarray \<times> byte list" where
  "load_matrix float_size s new_fmt expected_vector_size =
     (case (if new_fmt
            then (case struct_unpack 1 s of Inl e \<Rightarrow> Inl e | Inr (quant_input, s0) \<Rightarrow> Inr s0)
            else Inr s) of
        Inl e \<Rightarrow> Inl e
      | Inr s1 \<Rightarrow>
          (case struct_unpack 16 s1 of
             Inl e \<Rightarrow> Inl e
           | Inr (b, s2) \<Rightarrow>
               (let num_vectors = unpack_q (take 8 b); dm = unpack_q (drop 8 b) in
                if \<not> (expected_vector_size = None \<or> expected_vector_size = Some dm)
                then Inl AssertionError
                else if float_size = 4 \<or> float_size = 8 then
                  (case fromfile float_size (num_vectors * dm) s2 of
                     Inl e \<Rightarrow> Inl e
                   | Inr (items, s3) \<Rightarrow>
                       (case reshape items num_vectors dm of
                          Inl e \<Rightarrow> Inl e
                        | Inr matrix \<Rightarrow> Inr (matrix, s3)))
                else Inl (ValueError (IncompatibleFloatSize float_size)))))"

text \<open>The writer's side: the items of a matrix, row after row, as 4-byte or 8-byte floats.\<close>

definition pack_floats32 :: "32 word list \<Rightarrow> byte list" where
  "pack_floats32 xs = concat (map pack_i xs)"

definition pack_floats64 :: "64 word list \<Rightarrow> byte list" where
  "pack_floats64 xs = concat (map pack_q xs)"

section \<open>The model object\<close>

text \<open>
  The state of a \<^verbatim>\<open>FastText\<close> object as far as this module reads and writes it: the keyed
  vectors \<^verbatim>\<open>wv\<close>, the vocabulary and the trainables. An attribute that may be missing on
  the object is an \<open>option\<close>; reading it while it is \<open>None\<close> raises \<^verbatim>\<open>AttributeError\<close>.
  \<^verbatim>\<open>wv.vocab\<close> and \<^verbatim>\<open>wv.hash2index\<close> are dictionaries of which the module takes the
  length: \<open>vocab\<close> lists the words in index order, \<open>hash2index\<close> the pairs of a hash and
  its row.
\<close>

record 'w keyed_vectors =
  kv_vector_size :: int
  min_n :: int
  max_n :: int
  kv_bucket :: int
  compatible_hash :: bool
  vocab :: "'w list"
  hash2index :: "(int \<times> nat) list"
  vectors :: "np_float ndarray option"
  vectors_vocab :: "np_float ndarray option"
  vectors_ngrams :: "np_float ndarray option"

record trainables =
  seed :: int
  tr_bucket :: int
  tr_vectors :: "np_float ndarray option"
  vectors_lockf :: "REAL ndarray option"
  vectors_vocab_lockf :: "REAL ndarray option"
  vectors_ngrams_lockf :: "REAL ndarray option"
  syn1 :: "np_float ndarray option"
  syn1neg :: "np_float ndarray option"
  layer1_size :: int
  old_hash2index_len :: "nat option"

record 'w fasttext =
  ft_new_format :: bool
  vector_size :: int
  window :: int
  epochs :: int
  negative :: int
  hs :: bool
  sg :: bool
  ft_compatible_hash :: "bool option"
  num_original_vectors :: "nat option"
  wv :: "'w keyed_vectors"
  vocabulary :: "'w ft_vocab"
  trainables :: trainables

definition FastTextKeyedVectors :: "int \<Rightarrow> int \<Rightarrow> int \<Rightarrow> int \<Rightarrow> bool \<Rightarrow> 'w keyed_vectors" where
  \<comment> \<open>Modelled from the spec: the class \<^verbatim>\<open>FastTextKeyedVectors\<close> of
      \<^verbatim>\<open>gensim/models/keyedvectors.py\<close> is not among the sources. Its constructor is taken to
      store its arguments (vector size, \<^verbatim>\<open>min_n\<close>, \<^verbatim>\<open>max_n\<close>, bucket count, hash variant) in an
      object with an empty vocabulary and no table yet (section 3: tables are constructed
      once per load or build).\<close>
  "FastTextKeyedVectors vs mn mx b ch =
     \<lparr>kv_vector_size = vs, min_n = mn, max_n = mx, kv_bucket = b, compatible_hash = ch,
      vocab = [], hash2index = [], vectors = None, vectors_vocab = None, vectors_ngrams = None\<rparr>"

text \<open>
  The object that \<^verbatim>\<open>FastText()\<close> builds from the default arguments of the constructor
  (\<^verbatim>\<open>size=100\<close>, \<^verbatim>\<open>window=5\<close>, \<^verbatim>\<open>min_count=5\<close>, \<^verbatim>\<open>sample=1e-3\<close>, \<^verbatim>\<open>seed=1\<close>, \<^verbatim>\<open>negative=5\<close>,
  \<^verbatim>\<open>iter=5\<close>, \<^verbatim>\<open>min_n=3\<close>, \<^verbatim>\<open>max_n=6\<close>, \<^verbatim>\<open>bucket=2000000\<close>), before any vocabulary is
  built, as far as this module determines it: the vocabulary is empty and the constructor's
  call of \<^verbatim>\<open>prepare_weights\<close> has allocated masks of no row. It stands for the object
  \<^verbatim>\<open>cls()\<close> of \<^verbatim>\<open>load_fasttext_format\<close> in the examples.
\<close>

definition fresh_model :: "'w fasttext" where
  "fresh_model =
     \<lparr>ft_new_format = False, vector_size = 100, window = 5, epochs = 5, negative = 5,
      hs = False, sg = False, ft_compatible_hash = Some True, num_original_vectors = None,
      wv = FastTextKeyedVectors 100 3 6 2000000 True,
      vocabulary = \<lparr>vocab_size = 0, nwords = 0, raw_vocab = [], sample = 0x3F50624DD2F1A9FC,
                    v_min_count = 5, old_vocab_len = None\<rparr>,
      trainables = \<lparr>seed = 1, tr_bucket = 2000000, tr_vectors = None, vectors_lockf = None,
                    vectors_vocab_lockf = Some (Array2 100 []),
                    vectors_ngrams_lockf = Some (Array2 100 []),
                    syn1 = None, syn1neg = None, layer1_size = 100,
                    old_hash2index_len = None\<rparr>\<rparr>"

section \<open>Loading a binary\<close>

text \<open>
  \<^verbatim>\<open>FastText._load_model_params(file_handle, encoding)\<close>.
  \<^verbatim>\<open>FastTextVocab.prepare_vocab\<close> only calls the method of its superclass
  \<^verbatim>\<open>Word2VecVocab\<close>, which is outside this module: it is the parameter
  \<open>super_prepare_vocab\<close>, called with the vocabulary object, \<^verbatim>\<open>hs\<close>, \<^verbatim>\<open>negative\<close>,
  \<^verbatim>\<open>wv\<close>, \<^verbatim>\<open>update\<close> and \<^verbatim>\<open>min_count\<close>; it returns the vocabulary and the keyed vectors as
  it leaves them. The last statement passes \<^verbatim>\<open>vocabulary.vocab_size\<close> to the logger, where
  no name \<^verbatim>\<open>vocabulary\<close> is bound, in the function or in the module: evaluating the
  argument raises \<^verbatim>\<open>NameError\<close> before the logger is called.
\<close>

definition load_model_params ::
  "('w ft_vocab \<Rightarrow> bool \<Rightarrow> int \<Rightarrow> 'w keyed_vectors \<Rightarrow> bool \<Rightarrow> int \<Rightarrow>
      error + 'w ft_vocab \<times> 'w keyed_vectors) \<Rightarrow>
   (byte list \<Rightarrow> 'w option) \<Rightarrow> 'w fasttext \<Rightarrow> byte list \<Rightarrow>
     (error + 'w fasttext \<times> byte list) option" where
  "load_model_params super_prepare_vocab decode self s =
     (case read_params s of
        Inl e \<Rightarrow> Some (Inl e)
      | Inr (p, s1) \<Rightarrow>
          (let self1 = self\<lparr>ft_new_format := new_format p, vector_size := dim p, window := ws p,
                             epochs := epoch p, negative := neg p, hs := (loss p = 1),
                             sg := (model p = 2),
                             trainables := (trainables self)\<lparr>tr_bucket := bucket p\<rparr>,
                             wv := FastTextKeyedVectors (dim p) (minn p) (maxn p) (bucket p) True\<rparr>
           in case load_vocab decode s1 (ft_new_format self1) (t p) (min_count p) of
                None \<Rightarrow> None
              | Some (Inl e) \<Rightarrow> Some (Inl e)
              | Some (Inr (v, s2)) \<Rightarrow>
                  (case super_prepare_vocab v (hs self1) (negative self1) (wv self1) True
                          (min_count p) of
                     Inl e \<Rightarrow> Some (Inl e)
                   | Inr (v', wv') \<Rightarrow>
                       (let self2 = self1\<lparr>vocabulary := v', wv := wv'\<rparr> in
                        if int (length (vocab (wv self2))) \<noteq> nwords (vocabulary self2)
                        then Some (Inl AssertionError)
                        else if int (length (vocab (wv self2))) \<noteq> vocab_size (vocabulary self2)
                        then Some (Inl NameError)
                        else Some (Inr (self2, s2))))))"

text \<open>\<^verbatim>\<open>FastText._load_vectors(file_handle)\<close>.\<close>

definition load_vectors ::
  "nat \<Rightarrow> 'w fasttext \<Rightarrow> byte list \<Rightarrow> error + 'w fasttext \<times> byte list" where
  "load_vectors float_size self s =
     (case load_matrix float_size s (ft_new_format self) (Some (kv_vector_size (wv self))) of
        Inl e \<Rightarrow> Inl e
      | Inr (m, s1) \<Rightarrow>
          (let self1 = self\<lparr>wv := (wv self)\<lparr>vectors_ngrams := Some m\<rparr>,
                             num_original_vectors := Some (shape m ! 0)\<rparr>;
               expected_shape = [tr_bucket (trainables self1) + int (length (vocab (wv self1))),
                                 kv_vector_size (wv self1)]
           in if map int (shape m) \<noteq> expected_shape then Inl AssertionError
              else Inr (self1, s1)))"

text \<open>
  \<^verbatim>\<open>FastTextTrainables.init_post_load(model, hidden_output)\<close>; \<open>self\<close> is the
  trainables object.
\<close>

definition init_post_load ::
  "trainables \<Rightarrow> 'w fasttext \<Rightarrow> np_float ndarray \<Rightarrow> error + trainables" where
  "init_post_load self mdl hidden_output =
     (case vectors (wv mdl) of
        None \<Rightarrow> Inl AttributeError
      | Some vecs \<Rightarrow>
          (let num_vectors = int (len vecs);
               vocab_sz = int (length (vocab (wv mdl)));
               vector_sz = kv_vector_size (wv mdl)
           in if \<not> num_vectors > 0 then Inl AssertionError
              else if \<not> vocab_sz > 0 then Inl AssertionError
              else
                (case ones1 num_vectors of
                   Inl e \<Rightarrow> Inl e
                 | Inr lockf \<Rightarrow>
                     (case ones2 num_vectors vector_sz of
                        Inl e \<Rightarrow> Inl e
                      | Inr ngrams_lockf \<Rightarrow>
                          (case ones2 vocab_sz vector_sz of
                             Inl e \<Rightarrow> Inl e
                           | Inr vocab_lockf \<Rightarrow>
                               Inr (self\<lparr>vectors_lockf := Some lockf,
                                         vectors_ngrams_lockf := Some ngrams_lockf,
                                         vectors_vocab_lockf := Some vocab_lockf,
                                         syn1 := (if hs mdl then Some hidden_output else syn1 self),
                                         syn1neg := (if negative mdl \<noteq> 0 then Some hidden_output
                                                     else syn1neg self),
                                         layer1_size := vector_sz\<rparr>))))))"

text \<open>
  \<^verbatim>\<open>FastText._load_trainables(file_handle)\<close>. The two methods of \<^verbatim>\<open>wv\<close> it calls,
  \<^verbatim>\<open>init_ngrams_post_load\<close> and \<^verbatim>\<open>init_vectors_vocab\<close>, are outside this module and are
  parameters. \<^verbatim>\<open>assert not file_handle.read()\<close> fails when a byte is left.
\<close>

definition load_trainables ::
  "nat \<Rightarrow> ('w keyed_vectors \<Rightarrow> error + 'w keyed_vectors) \<Rightarrow>
   ('w keyed_vectors \<Rightarrow> error + 'w keyed_vectors) \<Rightarrow> 'w fasttext \<Rightarrow> byte list \<Rightarrow>
     error + 'w fasttext \<times> byte list" where
  "load_trainables float_size init_ngrams_post_load init_vectors_vocab self s =
     (case init_ngrams_post_load (wv self) of
        Inl e \<Rightarrow> Inl e
      | Inr wv1 \<Rightarrow>
          (case load_matrix float_size s (ft_new_format self) (Some (kv_vector_size wv1)) of
             Inl e \<Rightarrow> Inl e
           | Inr (hidden_output, s1) \<Rightarrow>
               if s1 \<noteq> [] then Inl AssertionError
               else
                 (case init_vectors_vocab wv1 of
                    Inl e \<Rightarrow> Inl e
                  | Inr wv2 \<Rightarrow>
                      (case init_post_load (trainables self) (self\<lparr>wv := wv2\<rparr>) hidden_output of
                         Inl e \<Rightarrow> Inl e
                       | Inr tr \<Rightarrow> Inr (self\<lparr>wv := wv2, trainables := tr\<rparr>, [])))))"

text \<open>
  \<^verbatim>\<open>FastText.load_binary_data(encoding)\<close> runs the three steps on the opened file, and
  \<^verbatim>\<open>FastText.load_fasttext_format(model_file, encoding)\<close> runs it on a new object
  \<^verbatim>\<open>cls()\<close> (here \<open>fresh\<close>) and returns the object. An exception of any step leaves
  through both: nothing is returned.
\<close>

definition load_binary_data ::
  "('w ft_vocab \<Rightarrow> bool \<Rightarrow> int \<Rightarrow> 'w keyed_vectors \<Rightarrow> bool \<Rightarrow> int \<Rightarrow>
      error + 'w ft_vocab \<times> 'w keyed_vectors) \<Rightarrow>
   ('w keyed_vectors \<Rightarrow> error + 'w keyed_vectors) \<Rightarrow>
   ('w keyed_vectors \<Rightarrow> error + 'w keyed_vectors) \<Rightarrow>
   nat \<Rightarrow> (byte list \<Rightarrow> 'w option) \<Rightarrow> 'w fasttext \<Rightarrow> byte list \<Rightarrow>
     (error + 'w fasttext) option" where
  "load_binary_data super_prepare_vocab init_ngrams_post_load init_vectors_vocab float_size
       decode self f =
     (case load_model_params super_prepare_vocab decode self f of
        None \<Rightarrow> None
      | Some (Inl e) \<Rightarrow> Some (Inl e)
      | Some (Inr (self1, f1)) \<Rightarrow>
          (case load_vectors float_size self1 f1 of
             Inl e \<Rightarrow> Some (Inl e)
           | Inr (self2, f2) \<Rightarrow>
               (case load_trainables float_size init_ngrams_post_load init_vectors_vocab
                       self2 f2 of
                  Inl e \<Rightarrow> Some (Inl e)
                | Inr (self3, f3) \<Rightarrow> Some (Inr self3))))"

definition load_fasttext_format ::
  "('w ft_vocab \<Rightarrow> bool \<Rightarrow> int \<Rightarrow> 'w keyed_vectors \<Rightarrow> bool \<Rightarrow> int \<Rightarrow>
      error + 'w ft_vocab \<times> 'w keyed_vectors) \<Rightarrow>
   ('w keyed_vectors \<Rightarrow> error + 'w keyed_vectors) \<Rightarrow>
   ('w keyed_vectors \<Rightarrow> error + 'w keyed_vectors) \<Rightarrow>
   nat \<Rightarrow> (byte list \<Rightarrow> 'w option) \<Rightarrow> 'w fasttext \<Rightarrow> byte list \<Rightarrow>
     (error + 'w fasttext) option" where
  "load_fasttext_format super_prepare_vocab init_ngrams_post_load init_vectors_vocab float_size
       decode fresh f =
     load_binary_data super_prepare_vocab init_ngrams_post_load init_vectors_vocab float_size
       decode fresh f"

text \<open>
  \<^verbatim>\<open>_check_model(m)\<close>, the checks of the module-level loader. Its last statement evaluates
  the unbound name \<^verbatim>\<open>vocabulary\<close> like the one of \<^verbatim>\<open>_load_model_params\<close>.
\<close>

definition check_model :: "'w fasttext \<Rightarrow> error + unit" where
  "check_model m =
     (case vectors_ngrams (wv m) of
        None \<Rightarrow> Inl AttributeError
      | Some ngrams \<Rightarrow>
          if length (shape ngrams) < 2 then Inl IndexError
          else if kv_vector_size (wv m) \<noteq> int (shape ngrams ! 1) then Inl AssertionError
          else
            (case (case syn1neg (trainables m) of
                     None \<Rightarrow> Inr ()
                   | Some sn \<Rightarrow>
                       if length (shape sn) < 2 then Inl IndexError
                       else if kv_vector_size (wv m) \<noteq> int (shape sn ! 1) then Inl AssertionError
                       else Inr ()) of
               Inl e \<Rightarrow> Inl e
             | Inr u \<Rightarrow>
                 if int (length (vocab (wv m))) \<noteq> nwords (vocabulary m) then Inl AssertionError
                 else if int (length (vocab (wv m))) \<noteq> vocab_size (vocabulary m)
                 then Inl NameError
                 else Inr ()))"

section \<open>Allocating and growing the tables\<close>

text \<open>
  \<^verbatim>\<open>FastTextTrainables.init_ngrams_weights(wv, update, vocabulary)\<close>; \<open>self\<close> is the
  trainables object. The two methods of \<^verbatim>\<open>wv\<close> it calls are outside this module:
  \<open>kv_init_ngrams_weights\<close> stands for \<^verbatim>\<open>wv.init_ngrams_weights(seed)\<close>, which returns
  the n-gram indices, and \<open>kv_update_ngrams_weights\<close> for
  \<^verbatim>\<open>wv.update_ngrams_weights(seed, old_vocab_len)\<close>. The function returns the trainables
  and the keyed vectors as it leaves them.
\<close>

definition init_ngrams_weights ::
  "(int \<Rightarrow> 'w keyed_vectors \<Rightarrow> error + int list \<times> 'w keyed_vectors) \<Rightarrow>
   (int \<Rightarrow> nat \<Rightarrow> 'w keyed_vectors \<Rightarrow> error + 'w keyed_vectors) \<Rightarrow>
   trainables \<Rightarrow> 'w keyed_vectors \<Rightarrow> bool \<Rightarrow> 'w ft_vocab \<Rightarrow>
     error + trainables \<times> 'w keyed_vectors" where
  "init_ngrams_weights kv_init_ngrams_weights kv_update_ngrams_weights self kv update vocabulary_arg =
     (if \<not> update then
        (case kv_init_ngrams_weights (seed self) kv of
           Inl e \<Rightarrow> Inl e
         | Inr (ngram_indices, kv1) \<Rightarrow>
             (case ones2 (int (length (vocab kv1))) (kv_vector_size kv1) of
                Inl e \<Rightarrow> Inl e
              | Inr vocab_lockf \<Rightarrow>
                  (case ones2 (tr_bucket self) (kv_vector_size kv1) of
                     Inl e \<Rightarrow> Inl e
                   | Inr ngrams_lockf \<Rightarrow>
                       (case take_rows ngrams_lockf ngram_indices of
                          Inl e \<Rightarrow> Inl e
                        | Inr ngrams_lockf' \<Rightarrow>
                            Inr (self\<lparr>vectors_vocab_lockf := Some vocab_lockf,
                                      vectors_ngrams_lockf := Some ngrams_lockf'\<rparr>, kv1)))))
      else
        (let old_hash2index_len = length (hash2index kv) in
         case old_vocab_len vocabulary_arg of
           None \<Rightarrow> Inl AttributeError
         | Some old_len \<Rightarrow>
             (case kv_update_ngrams_weights (seed self) old_len kv of
                Inl e \<Rightarrow> Inl e
              | Inr kv1 \<Rightarrow>
                  (let new_vocab = int (length (vocab kv1)) - int old_len in
                   case vectors_vocab_lockf self of
                     None \<Rightarrow> Inl AttributeError
                   | Some vocab_lockf \<Rightarrow>
                       (case pad_ones vocab_lockf new_vocab of
                          Inl e \<Rightarrow> Inl e
                        | Inr vocab_lockf' \<Rightarrow>
                            (let new_ngrams = int (length (hash2index kv1)) - int old_hash2index_len in
                             case vectors_ngrams_lockf self of
                               None \<Rightarrow> Inl AttributeError
                             | Some ngrams_lockf \<Rightarrow>
                                 (case pad_ones ngrams_lockf new_ngrams of
                                    Inl e \<Rightarrow> Inl e
                                  | Inr ngrams_lockf' \<Rightarrow>
                                      Inr (self\<lparr>vectors_vocab_lockf := Some vocab_lockf',
                                                vectors_ngrams_lockf := Some ngrams_lockf'\<rparr>,
                                           kv1))))))))"

definition extend_hash2index :: "(int \<times> nat) list \<Rightarrow> int list \<Rightarrow> (int \<times> nat) list" where
  "extend_hash2index h2i hashes =
     fold (\<lambda>h m. if h \<in> fst ` set m then m else m @ [(h, length m)]) hashes h2i"

definition update_ngrams_weights ::
  "(int \<Rightarrow> nat \<Rightarrow> np_float list) \<Rightarrow> ('w \<Rightarrow> int list) \<Rightarrow>
   int \<Rightarrow> nat \<Rightarrow> 'w keyed_vectors \<Rightarrow> error + 'w keyed_vectors" where
  \<comment> \<open>Modelled from the spec: the method \<^verbatim>\<open>FastTextKeyedVectors.update_ngrams_weights\<close>
      of \<^verbatim>\<open>gensim/models/keyedvectors.py\<close> is not among the sources. Section 4.5, \<^verbatim>\<open>grow\<close>:
      it appends one freshly initialised row to the vocabulary-vector table for each new
      vocabulary entry, by the initialisation rule of \<^verbatim>\<open>allocate\<close> with the entry's own seed
      derivation (\<open>init_row seed i\<close> for the entry of index \<open>i\<close>); the bucket table keeps its
      size. Section 3: it never reorders existing rows, and it may extend the auxiliary
      structure of active bucket positions (\<open>hash2index\<close>) by those the n-grams of the new
      words hash to (\<open>buckets_of\<close>, the hasher of section 4.4).\<close>
  "update_ngrams_weights init_row buckets_of sd old_len kv =
     (case vectors_vocab kv of
        None \<Rightarrow> Inl AttributeError
      | Some (Array1 xs) \<Rightarrow> Inl (ValueError DimensionMismatch)
      | Some (Array2 c rws) \<Rightarrow>
          Inr (kv\<lparr>vectors_vocab :=
                     Some (Array2 c (rws @ map (init_row sd) [old_len ..< length (vocab kv)])),
                   hash2index :=
                     extend_hash2index (hash2index kv)
                       (concat (map buckets_of (drop old_len (vocab kv))))\<rparr>))"

section \<open>Vocabulary updates and persisted models\<close>

text \<open>
  \<^verbatim>\<open>FastText.build_vocab(sentences, corpus_file, update, ...)\<close>. The method of the superclass
  \<^verbatim>\<open>BaseWordEmbeddingsModel\<close> is outside this module and is the parameter
  \<open>super_build_vocab\<close>; \<open>args\<close> holds the arguments that are passed on unchanged. The
  result carries the object as the call leaves it, also when it raises.
\<close>

definition build_vocab ::
  "('w fasttext \<Rightarrow> 'args \<Rightarrow> bool \<Rightarrow> error \<times> 'w fasttext + 'r \<times> 'w fasttext) \<Rightarrow>
   'w fasttext \<Rightarrow> 'args \<Rightarrow> bool \<Rightarrow> error \<times> 'w fasttext + 'r \<times> 'w fasttext" where
  "build_vocab super_build_vocab self args update =
     (if update then
        (if length (vocab (wv self)) = 0 then Inl (RuntimeError, self)
         else
           super_build_vocab
             (self\<lparr>vocabulary := (vocabulary self)\<lparr>old_vocab_len := Some (length (vocab (wv self)))\<rparr>,
                    trainables := (trainables self)
                       \<lparr>old_hash2index_len := Some (length (hash2index (wv self)))\<rparr>\<rparr>)
             args update)
      else super_build_vocab self args update)"

text \<open>
  \<^verbatim>\<open>FastText.load\<close>, after \<^verbatim>\<open>super().load\<close> has returned the unpickled \<open>mdl\<close>: the masks
  and the hash variant an older model lacks are added. \<^verbatim>\<open>hasattr\<close> is the test for
  \<open>None\<close>. Any \<^verbatim>\<open>AttributeError\<close> raised here is caught by \<^verbatim>\<open>load\<close>, which then calls the
  loader of the deprecated module, the parameter \<open>load_old_fasttext\<close>.
\<close>

definition load_add_missing :: "'w fasttext \<Rightarrow> error + 'w fasttext" where
  "load_add_missing mdl =
     (case (if vectors_vocab_lockf (trainables mdl) = None \<and> vectors_vocab (wv mdl) \<noteq> None
            then (case tr_vectors (trainables mdl) of
                    None \<Rightarrow> Inl AttributeError
                  | Some vecs \<Rightarrow>
                      (case ones1 (int (len vecs)) of
                         Inl e \<Rightarrow> Inl e
                       | Inr lockf \<Rightarrow>
                           Inr (mdl\<lparr>trainables :=
                                  (trainables mdl)\<lparr>vectors_vocab_lockf := Some lockf\<rparr>\<rparr>)))
            else Inr mdl) of
        Inl e \<Rightarrow> Inl e
      | Inr mdl1 \<Rightarrow>
          (case (if vectors_ngrams_lockf (trainables mdl1) = None \<and> vectors_ngrams (wv mdl1) \<noteq> None
                 then (case tr_vectors (trainables mdl1) of
                         None \<Rightarrow> Inl AttributeError
                       | Some vecs \<Rightarrow>
                           (case ones1 (int (len vecs)) of
                              Inl e \<Rightarrow> Inl e
                            | Inr lockf \<Rightarrow>
                                Inr (mdl1\<lparr>trainables :=
                                       (trainables mdl1)\<lparr>vectors_ngrams_lockf := Some lockf\<rparr>\<rparr>)))
                 else Inr mdl1) of
             Inl e \<Rightarrow> Inl e
           | Inr mdl2 \<Rightarrow>
               if ft_compatible_hash mdl2 = None
               then Inr (mdl2\<lparr>ft_compatible_hash := Some False,
                              wv := (wv mdl2)\<lparr>compatible_hash := False\<rparr>\<rparr>)
               else Inr mdl2))"

definition load ::
  "(error + 'w fasttext) \<Rightarrow> (error + 'w fasttext) \<Rightarrow> error + 'w fasttext" where
  "load super_load load_old_fasttext =
     (case (case super_load of Inl e \<Rightarrow> Inl e | Inr mdl \<Rightarrow> load_add_missing mdl) of
        Inl AttributeError \<Rightarrow> load_old_fasttext
      | Inl e \<Rightarrow> Inl e
      | Inr mdl \<Rightarrow> Inr mdl)"

text \<open>
  The invariant of the specification (section 3): each lock-factor mask has the shape of the
  vector table it guards, the mask of the vocabulary vectors that of \<^verbatim>\<open>wv.vectors_vocab\<close>
  and the mask of the n-gram vectors that of \<^verbatim>\<open>wv.vectors_ngrams\<close>.
\<close>

definition lock_masks_match :: "'w fasttext \<Rightarrow> bool" where
  "lock_masks_match m =
     (map_option shape (vectors_vocab_lockf (trainables m)) =
        map_option shape (vectors_vocab (wv m)) \<and>
      map_option shape (vectors_ngrams_lockf (trainables m)) =
        map_option shape (vectors_ngrams (wv m)))"

section \<open>Decoding what was packed\<close>

lemma length_le_bytes [simp]: "length (le_bytes n x) = n"
  by (induction n arbitrary: x) auto

lemma le_uint_le_bytes: "le_uint (le_bytes n x) = x mod 256 ^ n"
proof (induction n arbitrary: x)
  case 0
  show ?case by simp
next
  case (Suc n)
  have "unat (of_nat (x mod 256) :: byte) = x mod 256"
    by (simp add: unat_of_nat)
  moreover have "x mod (256 * 256 ^ n) = 256 * (x div 256 mod 256 ^ n) + x mod 256"
    by (rule mod_mult2_eq)
  ultimately show ?case using Suc [of "x div 256"]
    by (simp only: le_bytes.simps le_uint.simps power_Suc)
qed

lemma length_pack_i [simp]: "length (pack_i w) = 4"
  by (simp add: pack_i_def)

lemma length_pack_q [simp]: "length (pack_q w) = 8"
  by (simp add: pack_q_def)

lemma length_pack_d [simp]: "length (pack_d w) = 8"
  by (simp add: pack_d_def)

lemma unpack_pack_i [simp]: "unpack_i (pack_i w) = sint w"
proof -
  have "unat w < 256 ^ 4" using unsigned_less [of w] by simp
  then have "unat w mod 256 ^ 4 = unat w" by (rule mod_less)
  then show ?thesis
    unfolding unpack_i_def pack_i_def le_uint_le_bytes by simp
qed

lemma unpack_pack_q [simp]: "unpack_q (pack_q w) = sint w"
proof -
  have "unat w < 256 ^ 8" using unsigned_less [of w] by simp
  then have "unat w mod 256 ^ 8 = unat w" by (rule mod_less)
  then show ?thesis
    unfolding unpack_q_def pack_q_def le_uint_le_bytes by simp
qed

lemma unpack_pack_d [simp]: "unpack_d (pack_d w) = w"
proof -
  have "unat w < 256 ^ 8" using unsigned_less [of w] by simp
  then have "unat w mod 256 ^ 8 = unat w" by (rule mod_less)
  then show ?thesis
    unfolding unpack_d_def pack_d_def le_uint_le_bytes by simp
qed

lemma struct_unpack_append:
  "length buf = n \<Longrightarrow> struct_unpack n (buf @ s) = Inr (buf, s)"
  by (simp add: struct_unpack_def file_read_def)

lemma struct_unpack_short:
  "length s < n \<Longrightarrow> struct_unpack n s = Inl StructError"
  by (simp add: struct_unpack_def file_read_def)

lemma unpack_ints_Suc_pack:
  "unpack_ints (Suc n) (pack_i w @ buf) = sint w # unpack_ints n buf"
  by simp

lemma n12: "(12::nat) = Suc (Suc (Suc (Suc (Suc (Suc (Suc (Suc (Suc (Suc (Suc (Suc 0)))))))))))"
  by simp
lemma n10: "(10::nat) = Suc (Suc (Suc (Suc (Suc (Suc (Suc (Suc (Suc (Suc 0)))))))))"
  by simp
lemma n2: "(2::nat) = Suc (Suc 0)"
  by simp

lemma n3: "(3::nat) = Suc (Suc (Suc 0))"
  by simp

lemma unpack_ints_2:
  "unpack_ints 2 (pack_i a @ pack_i b @ buf) = [sint a, sint b]"
  by (simp only: n2 unpack_ints_Suc_pack unpack_ints.simps(1)) 

lemma unpack_ints_12:
  "unpack_ints 12 (pack_i a1 @ pack_i a2 @ pack_i a3 @ pack_i a4 @ pack_i a5 @ pack_i a6 @
      pack_i a7 @ pack_i a8 @ pack_i a9 @ pack_i a10 @ pack_i a11 @ pack_i a12 @ buf) =
   [sint a1, sint a2, sint a3, sint a4, sint a5, sint a6, sint a7, sint a8, sint a9, sint a10,
    sint a11, sint a12]"
  by (simp only: n12 unpack_ints_Suc_pack unpack_ints.simps(1))

lemma unpack_ints_10:
  "unpack_ints 10 (pack_i a1 @ pack_i a2 @ pack_i a3 @ pack_i a4 @ pack_i a5 @ pack_i a6 @
      pack_i a7 @ pack_i a8 @ pack_i a9 @ pack_i a10 @ buf) =
   [sint a1, sint a2, sint a3, sint a4, sint a5, sint a6, sint a7, sint a8, sint a9, sint a10]"
  by (simp only: n10 unpack_ints_Suc_pack unpack_ints.simps(1))

lemma read_params_new:
  "read_params (pack_i 793712314 @ pack_i version @
      pack_i d @ pack_i w @ pack_i e @ pack_i mc @ pack_i ng @ pack_i u1 @ pack_i l @
      pack_i m @ pack_i b @ pack_i mn @ pack_i mx @ pack_i u2 @ pack_d tv @ rest) =
    Inr (\<lparr>new_format = True, dim = sint d, ws = sint w, epoch = sint e, min_count = sint mc,
          neg = sint ng, loss = sint l, model = sint m, bucket = sint b, minn = sint mn,
          maxn = sint mx, t = tv\<rparr>, rest)"
proof -
  let ?body = "pack_i d @ pack_i w @ pack_i e @ pack_i mc @ pack_i ng @ pack_i u1 @ pack_i l @
      pack_i m @ pack_i b @ pack_i mn @ pack_i mx @ pack_i u2 @ pack_d tv"
  have h1: "struct_unpack 8 ((pack_i 793712314 @ pack_i version) @ ?body @ rest) =
      Inr (pack_i 793712314 @ pack_i version, ?body @ rest)"
    by (rule struct_unpack_append) simp
  have h2: "struct_unpack 56 (?body @ rest) = Inr (?body, rest)"
    by (rule struct_unpack_append) simp
  have i12: "unpack_ints 12 ?body = [sint d, sint w, sint e, sint mc, sint ng, sint u1, sint l,
      sint m, sint b, sint mn, sint mx, sint u2]"
    by (rule unpack_ints_12)
  have m: "sint (793712314 :: 32 word) = 793712314" by simp
  show ?thesis
    using h1 h2 i12 m unpack_ints_2 [of 793712314 version "[]"]
    by (simp add: read_params_def FASTTEXT_FILEFORMAT_MAGIC_def params_of_def)
qed

lemma read_params_legacy:
  assumes ne: "sint d \<noteq> 793712314"
  shows "read_params (pack_i d @ pack_i w @ pack_i e @ pack_i mc @ pack_i ng @ pack_i u1 @
        pack_i l @ pack_i m @ pack_i b @ pack_i mn @ pack_i mx @ pack_i u2 @ pack_d tv @ rest) =
      Inr (\<lparr>new_format = False, dim = sint d, ws = sint w, epoch = sint e, min_count = sint mc,
            neg = sint ng, loss = sint l, model = sint m, bucket = sint b, minn = sint mn,
            maxn = sint mx, t = tv\<rparr>, rest)"
proof -
  let ?body = "pack_i e @ pack_i mc @ pack_i ng @ pack_i u1 @ pack_i l @
      pack_i m @ pack_i b @ pack_i mn @ pack_i mx @ pack_i u2 @ pack_d tv"
  have h1: "struct_unpack 8 ((pack_i d @ pack_i w) @ ?body @ rest) =
      Inr (pack_i d @ pack_i w, ?body @ rest)"
    by (rule struct_unpack_append) simp
  have h2: "struct_unpack 48 (?body @ rest) = Inr (?body, rest)"
    by (rule struct_unpack_append) simp
  have i10: "unpack_ints 10 ?body = [sint e, sint mc, sint ng, sint u1, sint l,
      sint m, sint b, sint mn, sint mx, sint u2]"
    by (rule unpack_ints_10)
  show ?thesis
    using h1 h2 i10 ne unpack_ints_2 [of d w "[]"]
    by (simp add: read_params_def FASTTEXT_FILEFORMAT_MAGIC_def params_of_def)
qed


lemma le_bytes_4:
  "le_bytes 4 x = [of_nat (x mod 256), of_nat (x div 256 mod 256),
     of_nat (x div 256 div 256 mod 256), of_nat (x div 256 div 256 div 256 mod 256)]"
proof -
  have "(4::nat) = Suc (Suc (Suc (Suc 0)))" by simp
  then show ?thesis by (simp only: le_bytes.simps)
qed

lemma le_bytes_8:
  "le_bytes 8 x = [of_nat (x mod 256), of_nat (x div 256 mod 256),
     of_nat (x div 256 div 256 mod 256), of_nat (x div 256 div 256 div 256 mod 256),
     of_nat (x div 256 div 256 div 256 div 256 mod 256),
     of_nat (x div 256 div 256 div 256 div 256 div 256 mod 256),
     of_nat (x div 256 div 256 div 256 div 256 div 256 div 256 mod 256),
     of_nat (x div 256 div 256 div 256 div 256 div 256 div 256 div 256 mod 256)]"
proof -
  have "(8::nat) = Suc (Suc (Suc (Suc (Suc (Suc (Suc (Suc 0)))))))" by simp
  then show ?thesis by (simp only: le_bytes.simps)
qed

subsection \<open>Reading the entries of the vocabulary\<close>

lemma read_word_end [simp]: "read_word wb [0] s = Some (wb, s)"
  by (subst read_word.simps) simp

lemma read_word_step:
  "c \<noteq> 0 \<Longrightarrow> read_word wb [c] (x # s) = read_word (wb @ [c]) [x] s"
  by (subst read_word.simps) (simp add: file_read_def)

lemma read_word_eof_aux:
  assumes "read_word wb cb s = Some r"
  shows "\<not> (cb = [] \<and> s = [])"
  using assms
proof (rule read_word.raw_induct [where P = "\<lambda>wb cb s r. \<not> (cb = [] \<and> s = [])", rotated])
  fix f :: "byte list \<Rightarrow> byte list \<Rightarrow> byte list \<Rightarrow> (byte list \<times> byte list) option"
    and wb cb s r
  assume ih: "\<And>a b c y. f a b c = Some y \<Longrightarrow> \<not> (b = [] \<and> c = [])"
    and step: "(if cb \<noteq> [0] then f (wb @ cb) (fst (file_read 1 s)) (snd (file_read 1 s))
                else Some (wb, s)) = Some r"
  show "\<not> (cb = [] \<and> s = [])"
  proof
    assume e: "cb = [] \<and> s = []"
    with step have "f wb [] [] = Some r" by (simp add: file_read_def)
    from ih [OF this] show False by simp
  qed
qed

lemma read_word_eof: "read_word wb [] [] = None"
  using read_word_eof_aux [of wb "[]" "[]"] by (cases "read_word wb [] []") auto

lemma read_word_run:
  "0 \<notin> set w \<Longrightarrow> x \<noteq> 0 \<Longrightarrow> read_word wb [x] (w @ 0 # s) = Some (wb @ x # w, s)"
proof (induction w arbitrary: wb x)
  case Nil
  then show ?case by (simp add: read_word_step)
next
  case (Cons a w)
  then show ?case by (simp add: read_word_step)
qed

lemma read_word_stream:
  "0 \<notin> set w \<Longrightarrow>
   read_word [] (fst (file_read 1 (w @ 0 # s))) (snd (file_read 1 (w @ 0 # s))) = Some (w, s)"
  by (cases w) (simp_all add: file_read_def read_word_run)

lemma read_entry:
  assumes "0 \<notin> set w"
  shows "read_word [] (fst (file_read (Suc 0) (pack_entry (w, c, f) @ s)))
           (snd (file_read (Suc 0) (pack_entry (w, c, f) @ s))) = Some (w, pack_q c @ f # s)"
  using read_word_stream [OF assms, of "pack_q c @ f # s"] by (simp add: pack_entry_def)

lemma unpack_count: "struct_unpack 9 (pack_q c @ f # s) = Inr (pack_q c @ [f], s)"
  using struct_unpack_append [of "pack_q c @ [f]" 9 s] by simp

lemma load_entries_packed:
  "list_all (well_formed_entry decode) es \<Longrightarrow>
   load_entries decode (length es) rv (pack_entries es @ rest) =
     Some (Inr (store_entries decode es rv, rest))"
proof (induction es arbitrary: rv)
  case Nil
  show ?case by (simp add: pack_entries_def store_entries_def)
next
  case (Cons e es)
  obtain w c f where e: "e = (w, c, f)" by (cases e)
  from Cons.prems e obtain word where w0: "0 \<notin> set w" and dw: "decode w = Some word"
    by (auto simp: well_formed_entry_def)
  from Cons.prems have rest_ok: "list_all (well_formed_entry decode) es" by simp
  have split: "pack_entries (e # es) @ rest = pack_entry (w, c, f) @ pack_entries es @ rest"
    by (simp add: pack_entries_def e)
  have st: "store_entries decode (e # es) rv =
      store_entries decode es (AList.update word (sint c) rv)"
    by (simp add: store_entries_def e dw)
  show ?case
    unfolding split st
    using Cons.IH [OF rest_ok, of "AList.update word (sint c) rv"]
    by (simp add: read_entry [OF w0] dw unpack_count)
qed

lemma unpack_ints_3:
  "unpack_ints 3 (pack_i a @ pack_i b @ pack_i c @ buf) = [sint a, sint b, sint c]"
  by (simp only: n3 unpack_ints_Suc_pack unpack_ints.simps(1))

lemma skip_pairs_packed:
  "skip_pairs (length ps) (pack_pairs ps @ rest) = Inr rest"
proof (induction ps)
  case Nil
  show ?case by (simp add: pack_pairs_def)
next
  case (Cons p ps)
  obtain a b where p: "p = (a, b)" by (cases p)
  have "struct_unpack 8 ((pack_i a @ pack_i b) @ pack_pairs ps @ rest) =
      Inr (pack_i a @ pack_i b, pack_pairs ps @ rest)"
    by (rule struct_unpack_append) simp
  with Cons show ?case by (simp add: pack_pairs_def p)
qed

lemma load_vocab_header:
  "struct_unpack 12 (pack_i vs @ pack_i nw @ pack_i nl @ s) =
     Inr (pack_i vs @ pack_i nw @ pack_i nl, s)"
  using struct_unpack_append [of "pack_i vs @ pack_i nw @ pack_i nl" 12 s] by simp

lemma load_vocab_labels:
  assumes "0 < sint nl"
  shows "load_vocab decode (pack_i vs @ pack_i nw @ pack_i nl @ rest) nf smp mc =
     Some (Inl NotImplementedError)"
  using assms unpack_ints_3 [of vs nw nl "[]"]
  by (simp add: load_vocab_def load_vocab_header)

lemma unpack_q_stream: "struct_unpack 8 (pack_q x @ s) = Inr (pack_q x, s)"
  by (rule struct_unpack_append) simp

lemma load_vocab_new_layout:
  assumes nl: "sint nl \<le> 0" and n: "nat (sint vs) = length es"
    and wf: "list_all (well_formed_entry decode) es"
    and np: "nat (sint ps) = length prs"
  shows "load_vocab decode
           (pack_i vs @ pack_i nw @ pack_i nl @ pack_q nt @ pack_q ps @
            pack_entries es @ pack_pairs prs @ rest) True smp mc =
         Some (Inr (\<lparr>vocab_size = sint vs, nwords = sint nw,
                     raw_vocab = store_entries decode es [], sample = smp, v_min_count = mc,
                     old_vocab_len = None\<rparr>, rest))"
  using nl unpack_ints_3 [of vs nw nl "[]"]
    load_entries_packed [OF wf, of "[]" "pack_pairs prs @ rest"]
    skip_pairs_packed [of prs rest]
  by (simp add: load_vocab_def load_vocab_header unpack_q_stream n np)

lemma load_vocab_legacy_layout:
  assumes nl: "sint nl \<le> 0" and n: "nat (sint vs) = length es"
    and wf: "list_all (well_formed_entry decode) es"
  shows "load_vocab decode
           (pack_i vs @ pack_i nw @ pack_i nl @ pack_q nt @ pack_entries es @ rest) False smp mc =
         Some (Inr (\<lparr>vocab_size = sint vs, nwords = sint nw,
                     raw_vocab = store_entries decode es [], sample = smp, v_min_count = mc,
                     old_vocab_len = None\<rparr>, rest))"
  using nl unpack_ints_3 [of vs nw nl "[]"]
    load_entries_packed [OF wf, of "[]" rest]
  by (simp add: load_vocab_def load_vocab_header unpack_q_stream n)

lemma map_of_store_entries:
  "map_of (store_entries decode es rv) = map_of (rev (decoded decode es) @ rv)"
proof (induction es arbitrary: rv)
  case Nil
  show ?case by (simp add: store_entries_def decoded_def)
next
  case (Cons e es)
  obtain w c f where e: "e = (w, c, f)" by (cases e)
  show ?case
  proof (cases "decode w")
    case None
    then have "store_entries decode (e # es) rv = store_entries decode es rv"
      by (simp add: store_entries_def e)
    moreover from None have "decoded decode (e # es) = decoded decode es"
      by (simp add: decoded_def e)
    ultimately show ?thesis using Cons.IH [of rv] by simp
  next
    case (Some word)
    then have st: "store_entries decode (e # es) rv =
        store_entries decode es (AList.update word (sint c) rv)"
      by (simp add: store_entries_def e)
    from Some have dc: "decoded decode (e # es) = (word, sint c) # decoded decode es"
      by (simp add: decoded_def e)
    have "map_of (store_entries decode (e # es) rv) =
        map_of (rev (decoded decode es) @ AList.update word (sint c) rv)"
      unfolding st by (rule Cons.IH)
    also have "\<dots> = map_of (rev (decoded decode (e # es)) @ rv)"
      by (simp add: dc update_conv')
    finally show ?thesis .
  qed
qed

subsection \<open>Evaluating the readers on the bytes of a file\<close>

lemma unpack_ints_numeral:
  "unpack_ints (numeral k) buf =
     unpack_i (take 4 buf) # unpack_ints (pred_numeral k) (drop 4 buf)"
  by (simp add: numeral_eq_Suc)

lemma load_entries_numeral:
  "load_entries decode (numeral k) rv s = load_entries decode (Suc (pred_numeral k)) rv s"
  by (simp add: numeral_eq_Suc)

lemma skip_pairs_numeral:
  "skip_pairs (numeral k) s = skip_pairs (Suc (pred_numeral k)) s"
  by (simp add: numeral_eq_Suc)

lemmas eval_stream = struct_unpack_def file_read_def unpack_ints_numeral load_entries_numeral
  skip_pairs_numeral unpack_i_def unpack_q_def unpack_d_def read_word_step

lemmas eval_pack = pack_i_def pack_q_def pack_d_def le_bytes_4 le_bytes_8 pack_entries_def
  pack_entry_def pack_pairs_def

subsection \<open>Matrices and masks\<close>

lemma unpack_items_numeral:
  "unpack_items fs (numeral k) s = unpack_items fs (Suc (pred_numeral k)) s"
  by (simp add: numeral_eq_Suc)

lemma split_rows_numeral:
  "split_rows c (numeral k) xs = split_rows c (Suc (pred_numeral k)) xs"
  by (simp add: numeral_eq_Suc)

lemmas eval_matrix = load_matrix_def fromfile_def reshape_def unpack_float_def
  unpack_items_numeral split_rows_numeral

lemma load_matrix_flag:
  "load_matrix float_size (quant_input # s) True expected =
     load_matrix float_size s False expected"
  by (simp add: load_matrix_def struct_unpack_def file_read_def)

lemma length_pack_floats32 [simp]: "length (pack_floats32 xs) = 4 * length xs"
  by (induction xs) (simp_all add: pack_floats32_def)

lemma length_pack_floats64 [simp]: "length (pack_floats64 xs) = 8 * length xs"
  by (induction xs) (simp_all add: pack_floats64_def)

lemma le_uint_pack_i: "word_of_nat (le_uint (pack_i x)) = x"
proof -
  have "unat x < 256 ^ 4" using unsigned_less [of x] by simp
  then have "unat x mod 256 ^ 4 = unat x" by (rule mod_less)
  then show ?thesis unfolding pack_i_def le_uint_le_bytes by simp
qed

lemma le_uint_pack_q: "word_of_nat (le_uint (pack_q x)) = x"
  using unpack_pack_d [of x] by (simp add: unpack_d_def pack_d_def pack_q_def)

lemma unpack_items_floats32:
  "unpack_items 4 (length xs) (pack_floats32 xs @ rest) = map Float32 xs"
proof (induction xs)
  case Nil
  show ?case by simp
next
  case (Cons x xs)
  have "pack_floats32 (x # xs) @ rest = pack_i x @ pack_floats32 xs @ rest"
    by (simp add: pack_floats32_def)
  with Cons show ?case by (simp add: unpack_float_def le_uint_pack_i)
qed

lemma unpack_items_floats64:
  "unpack_items 8 (length xs) (pack_floats64 xs @ rest) = map Float64 xs"
proof (induction xs)
  case Nil
  show ?case by simp
next
  case (Cons x xs)
  have "pack_floats64 (x # xs) @ rest = pack_q x @ pack_floats64 xs @ rest"
    by (simp add: pack_floats64_def)
  with Cons show ?case by (simp add: unpack_float_def le_uint_pack_q)
qed

lemma fromfile_floats32:
  assumes "int (length xs) < 2 ^ 63"
  shows "fromfile 4 (int (length xs)) (pack_floats32 xs @ rest) = Inr (map Float32 xs, rest)"
proof -
  have "(4 * length xs + length rest) div 4 = length xs + length rest div 4" by simp
  then show ?thesis
    using assms by (simp add: fromfile_def unpack_items_floats32 min_def)
qed

lemma fromfile_floats64:
  assumes "int (length xs) < 2 ^ 63"
  shows "fromfile 8 (int (length xs)) (pack_floats64 xs @ rest) = Inr (map Float64 xs, rest)"
proof -
  have "(8 * length xs + length rest) div 8 = length xs + length rest div 8" by simp
  then show ?thesis
    using assms by (simp add: fromfile_def unpack_items_floats64 min_def)
qed

lemma split_rows_concat:
  "list_all (\<lambda>row. length row = c) rws \<Longrightarrow> split_rows c (length rws) (concat rws) = rws"
  by (induction rws) simp_all

lemma length_concat_rows:
  "list_all (\<lambda>row. length row = c) rws \<Longrightarrow> length (concat rws) = length rws * c"
  by (induction rws) simp_all

lemma reshape_rows:
  assumes "list_all (\<lambda>row. length row = c) rws"
  shows "reshape (concat rws) (int (length rws)) (int c) = Inr (Array2 c rws)"
  using split_rows_concat [OF assms] length_concat_rows [OF assms]
  by (simp add: reshape_def)

lemma load_matrix_counts:
  "struct_unpack 16 (pack_q nv @ pack_q dm @ s) = Inr (pack_q nv @ pack_q dm, s)"
  using struct_unpack_append [of "pack_q nv @ pack_q dm" 16 s] by simp

lemma load_matrix_rows32:
  assumes rows: "list_all (\<lambda>row. length row = c) rws"
    and nv: "sint nv = int (length rws)" and dm: "sint dm = int c"
    and small: "int (length rws * c) < 2 ^ 63"
    and ex: "expected = None \<or> expected = Some (sint dm)"
  shows "load_matrix 4 (pack_q nv @ pack_q dm @ pack_floats32 (concat rws) @ rest) False expected =
           Inr (Array2 c (map (map Float32) rws), rest)"
proof -
  have len: "length (concat rws) = length rws * c" by (rule length_concat_rows [OF rows])
  have cnt: "sint nv * sint dm = int (length (concat rws))" by (simp add: nv dm len)
  have ff: "fromfile 4 (sint nv * sint dm) (pack_floats32 (concat rws) @ rest) =
      Inr (map Float32 (concat rws), rest)"
    unfolding cnt using small by (intro fromfile_floats32) (simp add: len)
  have rows': "list_all (\<lambda>row. length row = c) (map (map Float32) rws)"
    using rows by (induction rws) simp_all
  have rs: "reshape (map Float32 (concat rws)) (sint nv) (sint dm) =
      Inr (Array2 c (map (map Float32) rws))"
    using reshape_rows [OF rows'] by (simp add: nv dm map_concat)
  show ?thesis
    using ex by (auto simp: load_matrix_def load_matrix_counts ff rs)
qed

lemma load_matrix_rows64:
  assumes rows: "list_all (\<lambda>row. length row = c) rws"
    and nv: "sint nv = int (length rws)" and dm: "sint dm = int c"
    and small: "int (length rws * c) < 2 ^ 63"
    and ex: "expected = None \<or> expected = Some (sint dm)"
  shows "load_matrix 8 (pack_q nv @ pack_q dm @ pack_floats64 (concat rws) @ rest) False expected =
           Inr (Array2 c (map (map Float64) rws), rest)"
proof -
  have len: "length (concat rws) = length rws * c" by (rule length_concat_rows [OF rows])
  have cnt: "sint nv * sint dm = int (length (concat rws))" by (simp add: nv dm len)
  have ff: "fromfile 8 (sint nv * sint dm) (pack_floats64 (concat rws) @ rest) =
      Inr (map Float64 (concat rws), rest)"
    unfolding cnt using small by (intro fromfile_floats64) (simp add: len)
  have rows': "list_all (\<lambda>row. length row = c) (map (map Float64) rws)"
    using rows by (induction rws) simp_all
  have rs: "reshape (map Float64 (concat rws)) (sint nv) (sint dm) =
      Inr (Array2 c (map (map Float64) rws))"
    using reshape_rows [OF rows'] by (simp add: nv dm map_concat)
  show ?thesis
    using ex by (auto simp: load_matrix_def load_matrix_counts ff rs)
qed

lemma struct_unpack_error: "struct_unpack n s = Inl e \<Longrightarrow> e = StructError"
  by (simp add: struct_unpack_def file_read_def split: if_splits)

lemma fromfile_error: "fromfile fs c s = Inl e \<Longrightarrow> e = OverflowError"
  by (simp add: fromfile_def Let_def split: if_splits)

lemma reshape_error: "reshape xs r c = Inl e \<Longrightarrow> e = ValueError CannotReshape"
  by (simp add: reshape_def split: if_splits)

lemma load_matrix_supported_width:
  assumes "float_size = 4 \<or> float_size = 8"
  shows "load_matrix float_size s new_fmt expected \<noteq> Inl (ValueError (IncompatibleFloatSize n))"
proof
  assume a: "load_matrix float_size s new_fmt expected = Inl (ValueError (IncompatibleFloatSize n))"
  from a assms show False
    unfolding load_matrix_def Let_def
    by (auto split: sum.splits prod.splits if_splits
        dest: struct_unpack_error fromfile_error reshape_error)
qed

lemma length_extend_hash2index: "length h2i \<le> length (extend_hash2index h2i hashes)"
proof -
  have "length m \<le> length (fold (\<lambda>h m. if h \<in> fst ` set m then m else m @ [(h, length m)]) hashes m)"
    for m :: "(int \<times> nat) list"
  proof (induction hashes arbitrary: m)
    case Nil
    show ?case by simp
  next
    case (Cons h hashes)
    have "length m \<le> length (if h \<in> fst ` set m then m else m @ [(h, length m)])" by simp
    also have "\<dots> \<le> length (fold (\<lambda>h m. if h \<in> fst ` set m then m else m @ [(h, length m)])
        hashes (if h \<in> fst ` set m then m else m @ [(h, length m)]))"
      by (rule Cons.IH)
    finally show ?case by simp
  qed
  then show ?thesis by (simp add: extend_hash2index_def)
qed

lemma pad_ones_matrix:
  "pad_ones (Array2 c rws) (int k) = Inr (Array2 c (rws @ replicate k (replicate c REAL_one)))"
  by (simp add: pad_ones_def ones2_def vstack_def)

lemma pad_ones_vector: "pad_ones (Array1 xs) k = Inl (ValueError NotEnoughValuesToUnpack)"
  by (simp add: pad_ones_def)

lemma ones2_matrix: "ones2 r c = Inr m \<Longrightarrow> \<exists>c' rws. m = Array2 c' rws"
  by (auto simp: ones2_def split: if_splits)

lemma take_rows_matrix:
  "take_rows (Array2 c rws) indices = Inr m \<Longrightarrow> \<exists>rws'. m = Array2 c rws'"
  by (auto simp: take_rows_def split: if_splits)

lemma init_ngrams_weights_allocates:
  assumes "init_ngrams_weights kv_init kv_update self kv False vocabulary_arg = Inr (self', kv')"
  shows "\<exists>cv vrows cn nrows. vectors_vocab_lockf self' = Some (Array2 cv vrows)
           \<and> vectors_ngrams_lockf self' = Some (Array2 cn nrows)"
  using assms
  by (auto simp: init_ngrams_weights_def split: sum.splits prod.splits
      dest!: ones2_matrix take_rows_matrix)

lemma init_post_load_allocates:
  assumes "init_post_load self mdl hidden_output = Inr self'"
  shows "\<exists>cv vrows cn nrows. vectors_vocab_lockf self' = Some (Array2 cv vrows)
           \<and> vectors_ngrams_lockf self' = Some (Array2 cn nrows)"
  using assms
  by (auto simp: init_post_load_def Let_def split: option.splits sum.splits if_splits
      dest!: ones2_matrix)

lemma grow_matrices:
  assumes tbl: "vectors_vocab kv = Some (Array2 c rws)"
    and vm: "vectors_vocab_lockf self = Some (Array2 cv vrows)"
    and nm: "vectors_ngrams_lockf self = Some (Array2 cn nrows)"
    and old: "old_vocab_len vocabulary_arg = Some old_len"
    and k: "length (vocab kv) = old_len + k"
  shows "\<exists>self' kv' rws' vrows' nrows'.
           init_ngrams_weights kv_init (update_ngrams_weights init_row buckets_of)
             self kv True vocabulary_arg = Inr (self', kv')
         \<and> vectors_vocab kv' = Some (Array2 c rws')
         \<and> vectors_vocab_lockf self' = Some (Array2 cv vrows')
         \<and> vectors_ngrams_lockf self' = Some (Array2 cn nrows')
         \<and> length rws' = length rws + k \<and> length vrows' = length vrows + k
         \<and> take (length rws) rws' = rws \<and> take (length vrows) vrows' = vrows
         \<and> take (length nrows) nrows' = nrows
         \<and> vocab kv' = vocab kv"
proof -
  let ?h = "extend_hash2index (hash2index kv) (concat (map buckets_of (drop old_len (vocab kv))))"
  let ?kv' = "kv\<lparr>vectors_vocab := Some (Array2 c (rws @ map (init_row (seed self))
      [old_len ..< length (vocab kv)])), hash2index := ?h\<rparr>"
  have up: "update_ngrams_weights init_row buckets_of (seed self) old_len kv = Inr ?kv'"
    by (simp add: update_ngrams_weights_def tbl)
  have nv: "int (length (vocab ?kv')) - int old_len = int k"
    by (simp add: k)
  obtain j where j: "length ?h = length (hash2index kv) + j"
    using length_extend_hash2index [of "hash2index kv"
        "concat (map buckets_of (drop old_len (vocab kv)))"]
    by (metis le_Suc_ex)
  have nn: "int (length (hash2index ?kv')) - int (length (hash2index kv)) = int j"
    by (simp add: j)
  have res: "init_ngrams_weights kv_init (update_ngrams_weights init_row buckets_of)
      self kv True vocabulary_arg =
      Inr (self\<lparr>vectors_vocab_lockf := Some (Array2 cv (vrows @ replicate k (replicate cv REAL_one))),
                vectors_ngrams_lockf := Some (Array2 cn (nrows @ replicate j (replicate cn REAL_one)))\<rparr>,
           ?kv')"
    unfolding init_ngrams_weights_def
    by (simp only: up nv nn old vm nm pad_ones_matrix Let_def if_True not_True_eq_False
        if_False option.case sum.case)
  show ?thesis
    unfolding res by (simp add: k)
qed

subsection \<open>C1: the header\<close>

text \<open>
  Claim C1. The loader reads two 32-bit integers. When the first is the magic constant
  793712314, the second is the version and twelve more 32-bit integers and one 64-bit float
  follow, in the order dim, window, epoch, min_count, negatives, unused, loss, model type,
  bucket, min_n, max_n, unused, sampling threshold. Otherwise the two integers are the
  dimension and the window, and ten more 32-bit integers and the float follow in the same
  order. In both cases exactly these bytes are consumed.
\<close>

theorem read_params_layout:
  "read_params (pack_i 793712314 @ pack_i version @
      pack_i d @ pack_i w @ pack_i e @ pack_i mc @ pack_i ng @ pack_i u1 @ pack_i l @
      pack_i m @ pack_i b @ pack_i mn @ pack_i mx @ pack_i u2 @ pack_d tv @ rest) =
    Inr (\<lparr>new_format = True, dim = sint d, ws = sint w, epoch = sint e, min_count = sint mc,
          neg = sint ng, loss = sint l, model = sint m, bucket = sint b, minn = sint mn,
          maxn = sint mx, t = tv\<rparr>, rest)
   \<and> (sint d \<noteq> 793712314 \<longrightarrow>
      read_params (pack_i d @ pack_i w @ pack_i e @ pack_i mc @ pack_i ng @ pack_i u1 @
        pack_i l @ pack_i m @ pack_i b @ pack_i mn @ pack_i mx @ pack_i u2 @ pack_d tv @ rest) =
      Inr (\<lparr>new_format = False, dim = sint d, ws = sint w, epoch = sint e, min_count = sint mc,
            neg = sint ng, loss = sint l, model = sint m, bucket = sint b, minn = sint mn,
            maxn = sint mx, t = tv\<rparr>, rest))"
  by (simp add: read_params_new read_params_legacy)

theorem read_params_layout_witness:
  "sint (100 :: 32 word) \<noteq> 793712314 \<and>
   read_params
     [100,0,0,0, 5,0,0,0, 7,0,0,0, 1,0,0,0, 9,0,0,0, 0,0,0,0, 2,0,0,0, 1,0,0,0,
      16,39,0,0, 3,0,0,0, 6,0,0,0, 0,0,0,0, 0x2D,0x43,0x1C,0xEB,0xE2,0x36,0x1A,0x3F, 42] =
   Inr (\<lparr>new_format = False, dim = 100, ws = 5, epoch = 7, min_count = 1, neg = 9, loss = 2,
         model = 1, bucket = 10000, minn = 3, maxn = 6, t = 0x3F1A36E2EB1C432D\<rparr>, [42]) \<and>
   read_params
     [0xBA,0x16,0x4F,0x2F, 12,0,0,0,
      100,0,0,0, 5,0,0,0, 7,0,0,0, 1,0,0,0, 9,0,0,0, 0,0,0,0, 2,0,0,0, 1,0,0,0,
      16,39,0,0, 3,0,0,0, 6,0,0,0, 0,0,0,0, 0x2D,0x43,0x1C,0xEB,0xE2,0x36,0x1A,0x3F, 42] =
   Inr (\<lparr>new_format = True, dim = 100, ws = 5, epoch = 7, min_count = 1, neg = 9, loss = 2,
         model = 1, bucket = 10000, minn = 3, maxn = 6, t = 0x3F1A36E2EB1C432D\<rparr>, [42])"
  using read_params_layout [of 12 100 5 7 1 9 0 2 1 10000 3 6 0 "0x3F1A36E2EB1C432D" "[42]"]
  by (simp add: pack_i_def pack_d_def le_bytes_4 le_bytes_8)

subsection \<open>C3: a vocabulary size that differs from the declared one\<close>

text \<open>
  Claim C3 says that a final vocabulary size different from the declared vocabulary size is
  reported as a warning and that the load completes. The theorem evaluates the loader where
  the vocabulary has the declared word count and not the declared vocabulary size: the call
  of the logger names \<^verbatim>\<open>vocabulary.vocab_size\<close>, the load raises \<^verbatim>\<open>NameError\<close> and no model
  is returned. The witness is a file that declares two words and carries the word \<open>a\<close>
  twice.
\<close>

theorem load_model_params_size_mismatch:
  assumes "read_params f = Inr (p, f1)"
    and "load_vocab decode f1 (new_format p) (t p) (min_count p) = Some (Inr (v, f2))"
    and "super_prepare_vocab v (loss p = 1) (neg p)
           (FastTextKeyedVectors (dim p) (minn p) (maxn p) (bucket p) True) True (min_count p) =
         Inr (v', kv')"
    and "int (length (vocab kv')) = nwords v'"
    and "int (length (vocab kv')) \<noteq> vocab_size v'"
  shows "load_model_params super_prepare_vocab decode self f = Some (Inl NameError)
       \<and> load_fasttext_format super_prepare_vocab init_ngrams_post_load init_vectors_vocab
            float_size decode self f = Some (Inl NameError)"
proof -
  have m: "load_model_params super_prepare_vocab decode self f = Some (Inl NameError)"
    using assms by (simp add: load_model_params_def)
  then show ?thesis
    by (simp add: load_fasttext_format_def load_binary_data_def)
qed

theorem load_model_params_size_mismatch_witness:
  "read_params
     [0xBA,0x16,0x4F,0x2F, 12,0,0,0,
      100,0,0,0, 5,0,0,0, 7,0,0,0, 1,0,0,0, 9,0,0,0, 0,0,0,0, 2,0,0,0, 1,0,0,0,
      16,39,0,0, 3,0,0,0, 6,0,0,0, 0,0,0,0, 0x2D,0x43,0x1C,0xEB,0xE2,0x36,0x1A,0x3F,
      2,0,0,0, 1,0,0,0, 0,0,0,0, 3,0,0,0,0,0,0,0, 0,0,0,0,0,0,0,0,
      97, 0, 1,0,0,0,0,0,0,0, 0,  97, 0, 2,0,0,0,0,0,0,0, 0] =
     Inr (\<lparr>new_format = True, dim = 100, ws = 5, epoch = 7, min_count = 1, neg = 9, loss = 2,
           model = 1, bucket = 10000, minn = 3, maxn = 6, t = 0x3F1A36E2EB1C432D\<rparr>,
          [2,0,0,0, 1,0,0,0, 0,0,0,0, 3,0,0,0,0,0,0,0, 0,0,0,0,0,0,0,0,
           97, 0, 1,0,0,0,0,0,0,0, 0,  97, 0, 2,0,0,0,0,0,0,0, 0]) \<and>
   load_vocab Some
     [2,0,0,0, 1,0,0,0, 0,0,0,0, 3,0,0,0,0,0,0,0, 0,0,0,0,0,0,0,0,
      97, 0, 1,0,0,0,0,0,0,0, 0,  97, 0, 2,0,0,0,0,0,0,0, 0] True 0x3F1A36E2EB1C432D 1 =
     Some (Inr (\<lparr>vocab_size = 2, nwords = 1, raw_vocab = [([97], 2)],
                sample = 0x3F1A36E2EB1C432D, v_min_count = 1, old_vocab_len = None\<rparr>, [])) \<and>
   int (length [[97 :: byte]]) = 1 \<and> int (length [[97 :: byte]]) \<noteq> 2 \<and>
   load_model_params (\<lambda>v h n kv u m. Inr (v, kv\<lparr>vocab := map fst (raw_vocab v)\<rparr>)) Some
     (fresh_model :: byte list fasttext)
     [0xBA,0x16,0x4F,0x2F, 12,0,0,0,
      100,0,0,0, 5,0,0,0, 7,0,0,0, 1,0,0,0, 9,0,0,0, 0,0,0,0, 2,0,0,0, 1,0,0,0,
      16,39,0,0, 3,0,0,0, 6,0,0,0, 0,0,0,0, 0x2D,0x43,0x1C,0xEB,0xE2,0x36,0x1A,0x3F,
      2,0,0,0, 1,0,0,0, 0,0,0,0, 3,0,0,0,0,0,0,0, 0,0,0,0,0,0,0,0,
      97, 0, 1,0,0,0,0,0,0,0, 0,  97, 0, 2,0,0,0,0,0,0,0, 0] = Some (Inl NameError) \<and>
   load_fasttext_format (\<lambda>v h n kv u m. Inr (v, kv\<lparr>vocab := map fst (raw_vocab v)\<rparr>)) Inr Inr
     4 Some (fresh_model :: byte list fasttext)
     [0xBA,0x16,0x4F,0x2F, 12,0,0,0,
      100,0,0,0, 5,0,0,0, 7,0,0,0, 1,0,0,0, 9,0,0,0, 0,0,0,0, 2,0,0,0, 1,0,0,0,
      16,39,0,0, 3,0,0,0, 6,0,0,0, 0,0,0,0, 0x2D,0x43,0x1C,0xEB,0xE2,0x36,0x1A,0x3F,
      2,0,0,0, 1,0,0,0, 0,0,0,0, 3,0,0,0,0,0,0,0, 0,0,0,0,0,0,0,0,
      97, 0, 1,0,0,0,0,0,0,0, 0,  97, 0, 2,0,0,0,0,0,0,0, 0] = Some (Inl NameError)"
proof -
  let ?voc = "[2,0,0,0, 1,0,0,0, 0,0,0,0, 3,0,0,0,0,0,0,0, 0,0,0,0,0,0,0,0,
      97, 0, 1,0,0,0,0,0,0,0, 0,  97, 0, 2,0,0,0,0,0,0,0, 0] :: byte list"
  let ?p = "\<lparr>new_format = True, dim = 100, ws = 5, epoch = 7, min_count = 1, neg = 9, loss = 2,
           model = 1, bucket = 10000, minn = 3, maxn = 6, t = 0x3F1A36E2EB1C432D\<rparr>"
  let ?v = "\<lparr>vocab_size = 2, nwords = 1, raw_vocab = [([97 :: byte], 2)],
                sample = 0x3F1A36E2EB1C432D, v_min_count = 1, old_vocab_len = None\<rparr>"
  let ?prep = "\<lambda>(v :: byte list ft_vocab) (h :: bool) (n :: int) (kv :: byte list keyed_vectors)
      (u :: bool) (m :: int). (Inr (v, kv\<lparr>vocab := map fst (raw_vocab v)\<rparr>)
        :: error + byte list ft_vocab \<times> byte list keyed_vectors)"
  let ?f = "[0xBA,0x16,0x4F,0x2F, 12,0,0,0,
      100,0,0,0, 5,0,0,0, 7,0,0,0, 1,0,0,0, 9,0,0,0, 0,0,0,0, 2,0,0,0, 1,0,0,0,
      16,39,0,0, 3,0,0,0, 6,0,0,0, 0,0,0,0, 0x2D,0x43,0x1C,0xEB,0xE2,0x36,0x1A,0x3F] @ ?voc"
  have rp: "read_params ?f = Inr (?p, ?voc)"
    using read_params_new [of 12 100 5 7 1 9 0 2 1 10000 3 6 0 "0x3F1A36E2EB1C432D" ?voc]
    by (simp add: eval_pack)
  have lv: "load_vocab Some ?voc (new_format ?p) (t ?p) (min_count ?p) = Some (Inr (?v, []))"
    by (simp add: load_vocab_def eval_stream)
  have "load_model_params ?prep Some (fresh_model :: byte list fasttext) ?f = Some (Inl NameError)
       \<and> load_fasttext_format ?prep Inr Inr 4 Some (fresh_model :: byte list fasttext) ?f =
           Some (Inl NameError)"
    using rp lv
      load_model_params_size_mismatch [where f = "?f" and p = "?p" and ?f1.0 = "?voc"
        and decode = Some and v = "?v" and ?f2.0 = "[]" and super_prepare_vocab = "?prep"
        and v' = "?v" and kv' = "(FastTextKeyedVectors 100 3 6 10000 True)\<lparr>vocab := [[97]]\<rparr>"
        and self = "fresh_model :: byte list fasttext" and init_ngrams_post_load = Inr
        and init_vectors_vocab = Inr and float_size = 4]
    by simp
  with rp lv show ?thesis by simp
qed

subsection \<open>C4: the pruned-index pairs\<close>

text \<open>
  Claim C4 says that in the new format the loader reads the 64-bit size of the pruned-index
  table and skips that many pairs of 32-bit integers at once, before the entries of the words.
  The loader reads the size, then the entries, and skips the pairs after them. On a file
  laid out as the claim says (one pair, then the entry of the word \<open>a\<close> with count 5) it
  takes the bytes of the pair for a word, where the reader of the specification finds
  \<open>a\<close>.
\<close>

theorem load_vocab_pairs_first_counterexample:
  "load_vocab Some
     [1,0,0,0, 1,0,0,0, 0,0,0,0, 5,0,0,0,0,0,0,0, 1,0,0,0,0,0,0,0,
      7,0,0,0, 9,0,0,0, 97, 0, 5,0,0,0,0,0,0,0, 0] True 0 5 =
   Some (Inr (\<lparr>vocab_size = 1, nwords = 1, raw_vocab = [([7], 27303072741523456)],
              sample = 0, v_min_count = 5, old_vocab_len = None\<rparr>, []))
   \<and> read_vocabulary_spec Some
     [1,0,0,0, 1,0,0,0, 0,0,0,0, 5,0,0,0,0,0,0,0, 1,0,0,0,0,0,0,0,
      7,0,0,0, 9,0,0,0, 97, 0, 5,0,0,0,0,0,0,0, 0] True 0 5 =
   Some (Inr (\<lparr>vocab_size = 1, nwords = 1, raw_vocab = [([97], 5)],
              sample = 0, v_min_count = 5, old_vocab_len = None\<rparr>, []))"
  by (simp add: load_vocab_def read_vocabulary_spec_def eval_stream)

text \<open>
  Claim C4 as amended: in the new format the loader reads the 64-bit size of the pruned-index
  table, then the entries of the words, and then skips that many pairs of 32-bit integers. A
  section laid out in this order (no label, as many entries as the declared vocabulary size,
  words without zero byte that the codec decodes, as many pairs as the size says) is read to
  its end, and what follows it is left in the file.
\<close>

theorem load_vocab_pairs_after_entries:
  assumes "sint nl \<le> 0" and "nat (sint vs) = length es"
    and "list_all (well_formed_entry decode) es" and "nat (sint ps) = length prs"
  shows "load_vocab decode
           (pack_i vs @ pack_i nw @ pack_i nl @ pack_q nt @ pack_q ps @
            pack_entries es @ pack_pairs prs @ rest) True smp mc =
         Some (Inr (\<lparr>vocab_size = sint vs, nwords = sint nw,
                     raw_vocab = store_entries decode es [], sample = smp, v_min_count = mc,
                     old_vocab_len = None\<rparr>, rest))"
  using assms by (rule load_vocab_new_layout)

theorem load_vocab_pairs_after_entries_witness:
  "sint (0 :: 32 word) \<le> 0 \<and> nat (sint (1 :: 32 word)) = length [([97 :: byte], 5 :: 64 word, 0 :: byte)] \<and>
   list_all (well_formed_entry Some) [([97], 5, 0)] \<and>
   nat (sint (1 :: 64 word)) = length [(7 :: 32 word, 9 :: 32 word)] \<and>
   load_vocab Some
     [1,0,0,0, 1,0,0,0, 0,0,0,0, 5,0,0,0,0,0,0,0, 1,0,0,0,0,0,0,0,
      97, 0, 5,0,0,0,0,0,0,0, 0, 7,0,0,0, 9,0,0,0, 42] True 0 5 =
   Some (Inr (\<lparr>vocab_size = 1, nwords = 1, raw_vocab = [([97], 5)],
              sample = 0, v_min_count = 5, old_vocab_len = None\<rparr>, [42]))"
  using load_vocab_pairs_after_entries [of 0 1 "[([97], 5, 0)]" Some 1 "[(7, 9)]" 1 5 "[42]" 0 5]
  by (simp add: eval_pack well_formed_entry_def store_entries_def)

subsection \<open>C7: the entries of the words\<close>

text \<open>
  Claim C7 says that the number of entries read is the declared word count, the second of
  the three integers. The loop of the loader runs over the declared vocabulary size, the
  first one: with a size of 2 and a word count of 1 it reads two entries, where the reader of
  the specification reads one.
\<close>

theorem load_vocab_word_count_counterexample:
  "load_vocab Some
     [2,0,0,0, 1,0,0,0, 0,0,0,0, 3,0,0,0,0,0,0,0,
      97, 0, 1,0,0,0,0,0,0,0, 0,  98, 0, 2,0,0,0,0,0,0,0, 0] False 0 5 =
   Some (Inr (\<lparr>vocab_size = 2, nwords = 1, raw_vocab = [([97], 1), ([98], 2)],
              sample = 0, v_min_count = 5, old_vocab_len = None\<rparr>, []))
   \<and> read_vocabulary_spec Some
     [2,0,0,0, 1,0,0,0, 0,0,0,0, 3,0,0,0,0,0,0,0,
      97, 0, 1,0,0,0,0,0,0,0, 0,  98, 0, 2,0,0,0,0,0,0,0, 0] False 0 5 =
   Some (Inr (\<lparr>vocab_size = 2, nwords = 1, raw_vocab = [([97], 1)],
              sample = 0, v_min_count = 5, old_vocab_len = None\<rparr>,
              [98, 0, 2,0,0,0,0,0,0,0, 0]))"
  by (simp add: load_vocab_def read_vocabulary_spec_def eval_stream)

text \<open>
  Claim C7 as amended: each entry is read as a zero-terminated byte sequence, decoded by the
  caller's codec, then a 64-bit count and one byte that is dropped, and stored in a mapping
  from word to count. The number of entries read is the declared vocabulary size (the first
  integer of the section), whatever the word count says; when two entries carry the same
  word, the count of the later one replaces the earlier one: looking a word up gives the
  count of its last entry.
\<close>

theorem load_vocab_entries:
  assumes "sint nl \<le> 0" and "nat (sint vs) = length es"
    and "list_all (well_formed_entry decode) es" and "nat (sint ps) = length prs"
  shows "load_vocab decode
           (pack_i vs @ pack_i nw @ pack_i nl @ pack_q nt @ (if nf then pack_q ps else []) @
            pack_entries es @ (if nf then pack_pairs prs else []) @ rest) nf smp mc =
         Some (Inr (\<lparr>vocab_size = sint vs, nwords = sint nw,
                     raw_vocab = store_entries decode es [], sample = smp, v_min_count = mc,
                     old_vocab_len = None\<rparr>, rest))
       \<and> map_of (store_entries decode es []) = map_of (rev (decoded decode es))"
proof (cases nf)
  case True
  with load_vocab_new_layout [OF assms] map_of_store_entries [of decode es "[]"]
  show ?thesis by simp
next
  case False
  with load_vocab_legacy_layout [OF assms(1-3)] map_of_store_entries [of decode es "[]"]
  show ?thesis by simp
qed

theorem load_vocab_entries_witness:
  "sint (0 :: 32 word) \<le> 0 \<and>
   nat (sint (3 :: 32 word)) = length [([97 :: byte], 1 :: 64 word, 0 :: byte), ([98], 2, 0), ([97], 7, 0)] \<and>
   list_all (well_formed_entry Some) [([97], 1, 0), ([98], 2, 0), ([97], 7, 0)] \<and>
   nat (sint (0 :: 64 word)) = length ([] :: (32 word \<times> 32 word) list) \<and>
   load_vocab Some
     [3,0,0,0, 9,0,0,0, 0,0,0,0, 5,0,0,0,0,0,0,0,
      97, 0, 1,0,0,0,0,0,0,0, 0,  98, 0, 2,0,0,0,0,0,0,0, 0,  97, 0, 7,0,0,0,0,0,0,0, 0, 42]
     False 0 5 =
   Some (Inr (\<lparr>vocab_size = 3, nwords = 9, raw_vocab = [([97], 7), ([98], 2)],
              sample = 0, v_min_count = 5, old_vocab_len = None\<rparr>, [42])) \<and>
   map_of [([97 :: byte], 7 :: int), ([98], 2)] = map_of (rev [([97], 1), ([98], 2), ([97], 7)])"
  using load_vocab_entries [of 0 3 "[([97], 1, 0), ([98], 2, 0), ([97], 7, 0)]" Some 0 "[]"
      9 5 False "[42]" 0 5]
  by (simp add: eval_pack well_formed_entry_def store_entries_def decoded_def)

subsection \<open>C9: supervised models\<close>

text \<open>
  Claim C9. The loader reads three 32-bit integers, the declared vocabulary size, the word
  count and the label count, and whenever the label count is greater than zero it fails
  (\<^verbatim>\<open>NotImplementedError\<close>, supervised models are not supported); the failure leaves
  through \<^verbatim>\<open>_load_model_params\<close> and \<^verbatim>\<open>load_fasttext_format\<close>, which return no model.
\<close>

theorem load_vocab_rejects_labels:
  assumes "0 < sint nl"
  shows "load_vocab decode (pack_i vs @ pack_i nw @ pack_i nl @ rest) nf smp mc =
           Some (Inl NotImplementedError)
       \<and> (read_params f = Inr (p, pack_i vs @ pack_i nw @ pack_i nl @ rest) \<longrightarrow>
            load_model_params super_prepare_vocab decode self f = Some (Inl NotImplementedError)
          \<and> load_fasttext_format super_prepare_vocab init_ngrams_post_load init_vectors_vocab
              float_size decode self f = Some (Inl NotImplementedError))"
proof (intro conjI impI)
  show v: "load_vocab decode (pack_i vs @ pack_i nw @ pack_i nl @ rest) nf smp mc =
      Some (Inl NotImplementedError)" for nf smp mc
    using assms by (rule load_vocab_labels)
  assume h: "read_params f = Inr (p, pack_i vs @ pack_i nw @ pack_i nl @ rest)"
  show m: "load_model_params super_prepare_vocab decode self f = Some (Inl NotImplementedError)"
    by (simp add: load_model_params_def h v)
  show "load_fasttext_format super_prepare_vocab init_ngrams_post_load init_vectors_vocab
      float_size decode self f = Some (Inl NotImplementedError)"
    by (simp add: load_fasttext_format_def load_binary_data_def m)
qed

theorem load_vocab_rejects_labels_witness:
  "0 < sint (2 :: 32 word) \<and>
   load_vocab Some [1,0,0,0, 1,0,0,0, 2,0,0,0, 5,0,0,0,0,0,0,0, 97, 0] False 0 5 =
     Some (Inl NotImplementedError) \<and>
   read_params
     [0xBA,0x16,0x4F,0x2F, 12,0,0,0,
      100,0,0,0, 5,0,0,0, 7,0,0,0, 1,0,0,0, 9,0,0,0, 0,0,0,0, 2,0,0,0, 1,0,0,0,
      16,39,0,0, 3,0,0,0, 6,0,0,0, 0,0,0,0, 0x2D,0x43,0x1C,0xEB,0xE2,0x36,0x1A,0x3F,
      1,0,0,0, 1,0,0,0, 2,0,0,0, 5,0,0,0,0,0,0,0, 97, 0] =
     Inr (\<lparr>new_format = True, dim = 100, ws = 5, epoch = 7, min_count = 1, neg = 9, loss = 2,
           model = 1, bucket = 10000, minn = 3, maxn = 6, t = 0x3F1A36E2EB1C432D\<rparr>,
          [1,0,0,0, 1,0,0,0, 2,0,0,0, 5,0,0,0,0,0,0,0, 97, 0]) \<and>
   load_model_params (\<lambda>v h n kv u m. Inr (v, kv)) Some (fresh_model :: byte list fasttext)
     [0xBA,0x16,0x4F,0x2F, 12,0,0,0,
      100,0,0,0, 5,0,0,0, 7,0,0,0, 1,0,0,0, 9,0,0,0, 0,0,0,0, 2,0,0,0, 1,0,0,0,
      16,39,0,0, 3,0,0,0, 6,0,0,0, 0,0,0,0, 0x2D,0x43,0x1C,0xEB,0xE2,0x36,0x1A,0x3F,
      1,0,0,0, 1,0,0,0, 2,0,0,0, 5,0,0,0,0,0,0,0, 97, 0] = Some (Inl NotImplementedError) \<and>
   load_fasttext_format (\<lambda>v h n kv u m. Inr (v, kv)) Inr Inr 4 Some
     (fresh_model :: byte list fasttext)
     [0xBA,0x16,0x4F,0x2F, 12,0,0,0,
      100,0,0,0, 5,0,0,0, 7,0,0,0, 1,0,0,0, 9,0,0,0, 0,0,0,0, 2,0,0,0, 1,0,0,0,
      16,39,0,0, 3,0,0,0, 6,0,0,0, 0,0,0,0, 0x2D,0x43,0x1C,0xEB,0xE2,0x36,0x1A,0x3F,
      1,0,0,0, 1,0,0,0, 2,0,0,0, 5,0,0,0,0,0,0,0, 97, 0] = Some (Inl NotImplementedError)"
proof -
  have rp: "read_params
     [0xBA,0x16,0x4F,0x2F, 12,0,0,0,
      100,0,0,0, 5,0,0,0, 7,0,0,0, 1,0,0,0, 9,0,0,0, 0,0,0,0, 2,0,0,0, 1,0,0,0,
      16,39,0,0, 3,0,0,0, 6,0,0,0, 0,0,0,0, 0x2D,0x43,0x1C,0xEB,0xE2,0x36,0x1A,0x3F,
      1,0,0,0, 1,0,0,0, 2,0,0,0, 5,0,0,0,0,0,0,0, 97, 0] =
     Inr (\<lparr>new_format = True, dim = 100, ws = 5, epoch = 7, min_count = 1, neg = 9, loss = 2,
           model = 1, bucket = 10000, minn = 3, maxn = 6, t = 0x3F1A36E2EB1C432D\<rparr>,
          [1,0,0,0, 1,0,0,0, 2,0,0,0, 5,0,0,0,0,0,0,0, 97, 0])"
    using read_params_new [of 12 100 5 7 1 9 0 2 1 10000 3 6 0 "0x3F1A36E2EB1C432D"
        "[1,0,0,0, 1,0,0,0, 2,0,0,0, 5,0,0,0,0,0,0,0, 97, 0]"]
    by (simp add: eval_pack)
  show ?thesis
    using rp
      load_vocab_rejects_labels [of 2 Some 1 1 "[5,0,0,0,0,0,0,0, 97, 0]" False 0 5
        "[0xBA,0x16,0x4F,0x2F, 12,0,0,0,
      100,0,0,0, 5,0,0,0, 7,0,0,0, 1,0,0,0, 9,0,0,0, 0,0,0,0, 2,0,0,0, 1,0,0,0,
      16,39,0,0, 3,0,0,0, 6,0,0,0, 0,0,0,0, 0x2D,0x43,0x1C,0xEB,0xE2,0x36,0x1A,0x3F,
      1,0,0,0, 1,0,0,0, 2,0,0,0, 5,0,0,0,0,0,0,0, 97, 0]"
        "\<lparr>new_format = True, dim = 100, ws = 5, epoch = 7, min_count = 1, neg = 9, loss = 2,
           model = 1, bucket = 10000, minn = 3, maxn = 6, t = 0x3F1A36E2EB1C432D\<rparr>"
        "\<lambda>v h n kv u m. Inr (v, kv)" "fresh_model :: byte list fasttext" Inr Inr 4]
    by (simp add: eval_pack)
qed

subsection \<open>C2: growing the tables\<close>

text \<open>
  Claim C2. A vocabulary-growth event adding \<open>k\<close> new vocabulary entries makes the
  vocabulary-vector table longer by exactly \<open>k\<close> rows and its lock-factor mask longer by
  exactly \<open>k\<close> rows, and every previous row keeps its contents and its index; the words
  keep their indices. The masks are two-dimensional arrays, as the module allocates them:
  the allocation without update and \<^verbatim>\<open>init_post_load\<close> both return such masks, and a
  growth event returns such masks again, so that the next event finds them. The appending
  to the table is that of \<open>update_ngrams_weights\<close>, modelled from the specification.
\<close>

theorem grow_tables:
  "(vectors_vocab kv = Some (Array2 c rws) \<and>
    vectors_vocab_lockf self = Some (Array2 cv vrows) \<and>
    vectors_ngrams_lockf self = Some (Array2 cn nrows) \<and>
    old_vocab_len vocabulary_arg = Some old_len \<and> length (vocab kv) = old_len + k \<longrightarrow>
      (\<exists>self' kv' rws' vrows' nrows'.
           init_ngrams_weights kv_init (update_ngrams_weights init_row buckets_of)
             self kv True vocabulary_arg = Inr (self', kv')
         \<and> vectors_vocab kv' = Some (Array2 c rws')
         \<and> vectors_vocab_lockf self' = Some (Array2 cv vrows')
         \<and> vectors_ngrams_lockf self' = Some (Array2 cn nrows')
         \<and> length rws' = length rws + k \<and> length vrows' = length vrows + k
         \<and> take (length rws) rws' = rws \<and> take (length vrows) vrows' = vrows
         \<and> take (length nrows) nrows' = nrows
         \<and> vocab kv' = vocab kv))
   \<and> (init_ngrams_weights kv_init kv_update self0 kv0 False vocabulary0 = Inr (self1, kv1) \<longrightarrow>
        (\<exists>cv1 vrows1 cn1 nrows1. vectors_vocab_lockf self1 = Some (Array2 cv1 vrows1)
           \<and> vectors_ngrams_lockf self1 = Some (Array2 cn1 nrows1)))
   \<and> (init_post_load self0 mdl hidden_output = Inr self2 \<longrightarrow>
        (\<exists>cv2 vrows2 cn2 nrows2. vectors_vocab_lockf self2 = Some (Array2 cv2 vrows2)
           \<and> vectors_ngrams_lockf self2 = Some (Array2 cn2 nrows2)))"
proof (intro conjI impI)
  assume h: "vectors_vocab kv = Some (Array2 c rws) \<and>
    vectors_vocab_lockf self = Some (Array2 cv vrows) \<and>
    vectors_ngrams_lockf self = Some (Array2 cn nrows) \<and>
    old_vocab_len vocabulary_arg = Some old_len \<and> length (vocab kv) = old_len + k"
  then show "\<exists>self' kv' rws' vrows' nrows'.
           init_ngrams_weights kv_init (update_ngrams_weights init_row buckets_of)
             self kv True vocabulary_arg = Inr (self', kv')
         \<and> vectors_vocab kv' = Some (Array2 c rws')
         \<and> vectors_vocab_lockf self' = Some (Array2 cv vrows')
         \<and> vectors_ngrams_lockf self' = Some (Array2 cn nrows')
         \<and> length rws' = length rws + k \<and> length vrows' = length vrows + k
         \<and> take (length rws) rws' = rws \<and> take (length vrows) vrows' = vrows
         \<and> take (length nrows) nrows' = nrows
         \<and> vocab kv' = vocab kv"
    by (intro grow_matrices) simp_all
next
  assume "init_ngrams_weights kv_init kv_update self0 kv0 False vocabulary0 = Inr (self1, kv1)"
  then show "\<exists>cv1 vrows1 cn1 nrows1. vectors_vocab_lockf self1 = Some (Array2 cv1 vrows1)
           \<and> vectors_ngrams_lockf self1 = Some (Array2 cn1 nrows1)"
    by (rule init_ngrams_weights_allocates)
next
  assume "init_post_load self0 mdl hidden_output = Inr self2"
  then show "\<exists>cv2 vrows2 cn2 nrows2. vectors_vocab_lockf self2 = Some (Array2 cv2 vrows2)
           \<and> vectors_ngrams_lockf self2 = Some (Array2 cn2 nrows2)"
    by (rule init_post_load_allocates)
qed


theorem grow_tables_witness:
  "init_post_load (trainables (fresh_model :: byte list fasttext))
     ((fresh_model :: byte list fasttext)
        \<lparr>wv := (FastTextKeyedVectors 2 3 6 10 True)
                 \<lparr>vocab := [[97]],
                  vectors := Some (Array2 2 [[Float32 1, Float32 2]]),
                  vectors_vocab := Some (Array2 2 [[Float32 1, Float32 2]])\<rparr>\<rparr>) (Array2 2 [[Float32 9, Float32 9]]) =
     Inr ((trainables (fresh_model :: byte list fasttext))
        \<lparr>vectors_lockf := Some (Array1 [REAL_one]),
         vectors_ngrams_lockf := Some (Array2 2 [[REAL_one, REAL_one]]),
         vectors_vocab_lockf := Some (Array2 2 [[REAL_one, REAL_one]]),
         syn1neg := Some (Array2 2 [[Float32 9, Float32 9]]), layer1_size := 2\<rparr>) \<and>
   length (vocab ((FastTextKeyedVectors 2 3 6 10 True)
        \<lparr>vocab := [[97 :: byte], [98], [99]],
         vectors := Some (Array2 2 [[Float32 1, Float32 2]]),
         vectors_vocab := Some (Array2 2 [[Float32 1, Float32 2]])\<rparr>)) = 1 + 2 \<and>
   init_ngrams_weights (\<lambda>sd kv. Inr ([], kv))
       (update_ngrams_weights (\<lambda>sd i. [Float32 (word_of_nat i), Float32 0])
          (\<lambda>w. [sint (hd w)]))
       ((trainables (fresh_model :: byte list fasttext))
        \<lparr>vectors_lockf := Some (Array1 [REAL_one]),
         vectors_ngrams_lockf := Some (Array2 2 [[REAL_one, REAL_one]]),
         vectors_vocab_lockf := Some (Array2 2 [[REAL_one, REAL_one]]),
         syn1neg := Some (Array2 2 [[Float32 9, Float32 9]]), layer1_size := 2\<rparr>) ((FastTextKeyedVectors 2 3 6 10 True)
        \<lparr>vocab := [[97 :: byte], [98], [99]],
         vectors := Some (Array2 2 [[Float32 1, Float32 2]]),
         vectors_vocab := Some (Array2 2 [[Float32 1, Float32 2]])\<rparr>) True ((vocabulary (fresh_model :: byte list fasttext))\<lparr>old_vocab_len := Some 1\<rparr>) =
     Inr ((trainables (fresh_model :: byte list fasttext))
        \<lparr>vectors_lockf := Some (Array1 [REAL_one]),
         vectors_ngrams_lockf := Some (Array2 2 [[REAL_one, REAL_one], [REAL_one, REAL_one],
                                                 [REAL_one, REAL_one]]),
         vectors_vocab_lockf := Some (Array2 2 [[REAL_one, REAL_one], [REAL_one, REAL_one],
                                                [REAL_one, REAL_one]]),
         syn1neg := Some (Array2 2 [[Float32 9, Float32 9]]), layer1_size := 2\<rparr>,
          (FastTextKeyedVectors 2 3 6 10 True)
        \<lparr>vocab := [[97 :: byte], [98], [99]],
         vectors := Some (Array2 2 [[Float32 1, Float32 2]]),
         vectors_vocab := Some (Array2 2 [[Float32 1, Float32 2], [Float32 1, Float32 0],
                                          [Float32 2, Float32 0]]),
         hash2index := [(98, 0), (99, 1)]\<rparr>)"
  using grow_tables [where kv = "((FastTextKeyedVectors 2 3 6 10 True)
        \<lparr>vocab := [[97 :: byte], [98], [99]],
         vectors := Some (Array2 2 [[Float32 1, Float32 2]]),
         vectors_vocab := Some (Array2 2 [[Float32 1, Float32 2]])\<rparr>)"
      and self = "((trainables (fresh_model :: byte list fasttext))
        \<lparr>vectors_lockf := Some (Array1 [REAL_one]),
         vectors_ngrams_lockf := Some (Array2 2 [[REAL_one, REAL_one]]),
         vectors_vocab_lockf := Some (Array2 2 [[REAL_one, REAL_one]]),
         syn1neg := Some (Array2 2 [[Float32 9, Float32 9]]), layer1_size := 2\<rparr>)"
      and vocabulary_arg = "((vocabulary (fresh_model :: byte list fasttext))\<lparr>old_vocab_len := Some 1\<rparr>)"
      and c = 2 and rws = "[[Float32 1, Float32 2]]" and cv = 2
      and vrows = "[[REAL_one, REAL_one]]" and cn = 2 and nrows = "[[REAL_one, REAL_one]]"
      and old_len = 1 and k = 2
      and kv_init = "\<lambda>sd kv. Inr ([], kv)"
      and init_row = "\<lambda>sd i. [Float32 (word_of_nat i), Float32 0]"
      and buckets_of = "\<lambda>w. [sint (hd w)]"
      and ?self0.0 = "trainables (fresh_model :: byte list fasttext)"
      and mdl = "((fresh_model :: byte list fasttext)
        \<lparr>wv := (FastTextKeyedVectors 2 3 6 10 True)
                 \<lparr>vocab := [[97]],
                  vectors := Some (Array2 2 [[Float32 1, Float32 2]]),
                  vectors_vocab := Some (Array2 2 [[Float32 1, Float32 2]])\<rparr>\<rparr>)"
      and hidden_output = "Array2 2 [[Float32 9, Float32 9]]"
      and ?self2.0 = "((trainables (fresh_model :: byte list fasttext))
        \<lparr>vectors_lockf := Some (Array1 [REAL_one]),
         vectors_ngrams_lockf := Some (Array2 2 [[REAL_one, REAL_one]]),
         vectors_vocab_lockf := Some (Array2 2 [[REAL_one, REAL_one]]),
         syn1neg := Some (Array2 2 [[Float32 9, Float32 9]]), layer1_size := 2\<rparr>)"]
  by (simp add: fresh_model_def FastTextKeyedVectors_def init_ngrams_weights_def
      init_post_load_def ones1_def
      update_ngrams_weights_def extend_hash2index_def pad_ones_def ones2_def vstack_def
      upt_rec numeral_2_eq_2 numeral_3_eq_3)

subsection \<open>C5: the width of a float\<close>

text \<open>
  Claim C5 says that the loader detects the float width the file was produced with from a
  fixed header field of the file, and refuses a width that is neither 4 nor 8. The width the
  loader tests is \<^verbatim>\<open>struct.calcsize('@f')\<close>, a constant of the host that runs it, 4 on the
  usual hosts; no byte of the file enters the test. On such a host a matrix of one 8-byte
  float is read as one 4-byte float, with four bytes left over, and a matrix of one 16-byte
  float is read as one 4-byte float too, without any refusal.
\<close>

theorem load_matrix_host_width_counterexample:
  "load_matrix 4 [1,0,0,0,0,0,0,0, 1,0,0,0,0,0,0,0, 0,0,0,0,0,0,240,63] False None =
     Inr (Array2 1 [[Float32 0]], [0,0,240,63])
   \<and> load_matrix 4 [1,0,0,0,0,0,0,0, 1,0,0,0,0,0,0,0,
                     0,0,0,0,0,0,0,128, 0,0,0,0,0,0,255,63] False None =
     Inr (Array2 1 [[Float32 0]], [0,0,0,128, 0,0,0,0,0,0,255,63])"
  by (simp add: eval_matrix eval_stream)

text \<open>
  Claim C5 as amended: the float width is the size of a C float on the host that runs the
  loader, not a field of the file. Whenever that width is neither 4 nor 8 the read fails,
  whatever the file holds, and with \<^verbatim>\<open>ValueError\<close> (incompatible float size) once the counts
  are read and the dimension is the expected one, in the new format and in the legacy one.
  When the width is 4 or 8 no file makes the read fail with that error. With a width of 4,
  the usual one, a matrix of any number of rows and columns is read item by item as 4-byte
  floats, row after row, and the bytes after it are left in the file; with a width of 8 the
  items are 8-byte floats.
\<close>

theorem load_matrix_float_size:
  "(float_size \<noteq> 4 \<and> float_size \<noteq> 8 \<longrightarrow>
      (\<exists>e. load_matrix float_size s new_fmt expected = Inl e)
    \<and> (expected = None \<or> expected = Some (sint dm) \<longrightarrow>
         load_matrix float_size (pack_q nv @ pack_q dm @ rest) False expected =
           Inl (ValueError (IncompatibleFloatSize float_size))
       \<and> load_matrix float_size (quant_input # pack_q nv @ pack_q dm @ rest) True expected =
           Inl (ValueError (IncompatibleFloatSize float_size))))
   \<and> (float_size = 4 \<or> float_size = 8 \<longrightarrow>
        load_matrix float_size s new_fmt expected \<noteq> Inl (ValueError (IncompatibleFloatSize n)))
   \<and> (list_all (\<lambda>row. length row = c) rws_s \<and> sint nv = int (length rws_s) \<and>
      sint dm = int c \<and> int (length rws_s * c) < 2 ^ 63 \<and>
      (expected = None \<or> expected = Some (sint dm)) \<longrightarrow>
        load_matrix 4 (pack_q nv @ pack_q dm @ pack_floats32 (concat rws_s) @ rest)
            False expected = Inr (Array2 c (map (map Float32) rws_s), rest)
      \<and> load_matrix 4 (quant_input # pack_q nv @ pack_q dm @ pack_floats32 (concat rws_s) @ rest)
            True expected = Inr (Array2 c (map (map Float32) rws_s), rest))
   \<and> (list_all (\<lambda>row. length row = c) rws_d \<and> sint nv = int (length rws_d) \<and>
      sint dm = int c \<and> int (length rws_d * c) < 2 ^ 63 \<and>
      (expected = None \<or> expected = Some (sint dm)) \<longrightarrow>
        load_matrix 8 (pack_q nv @ pack_q dm @ pack_floats64 (concat rws_d) @ rest)
            False expected = Inr (Array2 c (map (map Float64) rws_d), rest)
      \<and> load_matrix 8 (quant_input # pack_q nv @ pack_q dm @ pack_floats64 (concat rws_d) @ rest)
            True expected = Inr (Array2 c (map (map Float64) rws_d), rest))"
proof (intro conjI impI)
  assume w: "float_size \<noteq> 4 \<and> float_size \<noteq> 8"
  show "\<exists>e. load_matrix float_size s new_fmt expected = Inl e"
    using w by (auto simp: load_matrix_def Let_def split: sum.splits prod.splits)
  assume e: "expected = None \<or> expected = Some (sint dm)"
  show a: "load_matrix float_size (pack_q nv @ pack_q dm @ rest) False expected =
      Inl (ValueError (IncompatibleFloatSize float_size))"
    using w e by (auto simp: load_matrix_def load_matrix_counts)
  show "load_matrix float_size (quant_input # pack_q nv @ pack_q dm @ rest) True expected =
      Inl (ValueError (IncompatibleFloatSize float_size))"
    using a by (simp add: load_matrix_flag)
next
  assume "float_size = 4 \<or> float_size = 8"
  then show "load_matrix float_size s new_fmt expected \<noteq>
      Inl (ValueError (IncompatibleFloatSize n))"
    by (rule load_matrix_supported_width)
next
  assume h: "list_all (\<lambda>row. length row = c) rws_s \<and> sint nv = int (length rws_s) \<and>
      sint dm = int c \<and> int (length rws_s * c) < 2 ^ 63 \<and>
      (expected = None \<or> expected = Some (sint dm))"
  then show a: "load_matrix 4 (pack_q nv @ pack_q dm @ pack_floats32 (concat rws_s) @ rest)
      False expected = Inr (Array2 c (map (map Float32) rws_s), rest)"
    by (intro load_matrix_rows32) auto
  then show "load_matrix 4
      (quant_input # pack_q nv @ pack_q dm @ pack_floats32 (concat rws_s) @ rest)
      True expected = Inr (Array2 c (map (map Float32) rws_s), rest)"
    by (simp add: load_matrix_flag)
next
  assume h: "list_all (\<lambda>row. length row = c) rws_d \<and> sint nv = int (length rws_d) \<and>
      sint dm = int c \<and> int (length rws_d * c) < 2 ^ 63 \<and>
      (expected = None \<or> expected = Some (sint dm))"
  then show a: "load_matrix 8 (pack_q nv @ pack_q dm @ pack_floats64 (concat rws_d) @ rest)
      False expected = Inr (Array2 c (map (map Float64) rws_d), rest)"
    by (intro load_matrix_rows64) auto
  then show "load_matrix 8
      (quant_input # pack_q nv @ pack_q dm @ pack_floats64 (concat rws_d) @ rest)
      True expected = Inr (Array2 c (map (map Float64) rws_d), rest)"
    by (simp add: load_matrix_flag)
qed


theorem load_matrix_float_size_witness:
  "(16 :: nat) \<noteq> 4 \<and> (16 :: nat) \<noteq> 8 \<and>
   (\<exists>e. load_matrix 16 [7, 7, 7] True None = Inl e) \<and>
   load_matrix 16 [2,0,0,0,0,0,0,0, 2,0,0,0,0,0,0,0, 9, 9] False (Some 2) =
     Inl (ValueError (IncompatibleFloatSize 16)) \<and>
   load_matrix 16 [1, 2,0,0,0,0,0,0,0, 2,0,0,0,0,0,0,0, 9, 9] True (Some 2) =
     Inl (ValueError (IncompatibleFloatSize 16)) \<and>
   load_matrix 4 [7, 7, 7] True None \<noteq> Inl (ValueError (IncompatibleFloatSize 4)) \<and>
   list_all (\<lambda>row. length row = 2)
     [[0x3F800000 :: 32 word, 0x40000000], [0x40400000, 0x40800000]] \<and>
   sint (2 :: 64 word) = int (length [[0x3F800000 :: 32 word, 0x40000000], [0x40400000, 0x40800000]]) \<and>
   sint (2 :: 64 word) = int 2 \<and>
   int (length [[0x3F800000 :: 32 word, 0x40000000], [0x40400000, 0x40800000]] * 2) < 2 ^ 63 \<and>
   load_matrix 4 [2,0,0,0,0,0,0,0, 2,0,0,0,0,0,0,0,
                  0,0,128,63, 0,0,0,64, 0,0,64,64, 0,0,128,64, 9, 9] False (Some 2) =
     Inr (Array2 2 [[Float32 0x3F800000, Float32 0x40000000],
                    [Float32 0x40400000, Float32 0x40800000]], [9, 9]) \<and>
   load_matrix 4 [1, 2,0,0,0,0,0,0,0, 2,0,0,0,0,0,0,0,
                  0,0,128,63, 0,0,0,64, 0,0,64,64, 0,0,128,64, 9, 9] True (Some 2) =
     Inr (Array2 2 [[Float32 0x3F800000, Float32 0x40000000],
                    [Float32 0x40400000, Float32 0x40800000]], [9, 9]) \<and>
   list_all (\<lambda>row. length row = 2)
     [[0x3FF0000000000000 :: 64 word, 0x4000000000000000], [0x4008000000000000, 0x4010000000000000]] \<and>
   load_matrix 8 [2,0,0,0,0,0,0,0, 2,0,0,0,0,0,0,0,
                  0,0,0,0,0,0,240,63, 0,0,0,0,0,0,0,64,
                  0,0,0,0,0,0,8,64, 0,0,0,0,0,0,16,64, 9, 9] False (Some 2) =
     Inr (Array2 2 [[Float64 0x3FF0000000000000, Float64 0x4000000000000000],
                    [Float64 0x4008000000000000, Float64 0x4010000000000000]], [9, 9]) \<and>
   load_matrix 8 [1, 2,0,0,0,0,0,0,0, 2,0,0,0,0,0,0,0,
                  0,0,0,0,0,0,240,63, 0,0,0,0,0,0,0,64,
                  0,0,0,0,0,0,8,64, 0,0,0,0,0,0,16,64, 9, 9] True (Some 2) =
     Inr (Array2 2 [[Float64 0x3FF0000000000000, Float64 0x4000000000000000],
                    [Float64 0x4008000000000000, Float64 0x4010000000000000]], [9, 9])"
  using load_matrix_float_size [where float_size = 16 and s = "[7, 7, 7]" and new_fmt = True
      and expected = None and dm = 2 and nv = 2 and rest = "[9, 9]" and quant_input = 1
      and n = 4 and c = 2 and rws_s = "[]" and rws_d = "[]"]
    load_matrix_float_size [where float_size = 16 and s = "[7, 7, 7]" and new_fmt = True
      and expected = "Some 2" and dm = 2 and nv = 2 and rest = "[9, 9]" and quant_input = 1
      and n = 4 and c = 2
      and rws_s = "[[0x3F800000, 0x40000000], [0x40400000, 0x40800000]]"
      and rws_d = "[[0x3FF0000000000000, 0x4000000000000000],
                    [0x4008000000000000, 0x4010000000000000]]"]
    load_matrix_float_size [where float_size = 4 and s = "[7, 7, 7]" and new_fmt = True
      and expected = None and dm = 2 and nv = 2 and rest = "[9, 9]" and quant_input = 1
      and n = 4 and c = 2 and rws_s = "[]" and rws_d = "[]"]
  by (simp add: eval_pack pack_floats32_def pack_floats64_def)

subsection \<open>C6: the shapes of the masks\<close>

text \<open>
  Claim C6 says that at every point of a model's life each lock-factor mask has the shape of
  the table it guards. The theorem evaluates the two places where a persisted model gets its
  masks. \<^verbatim>\<open>FastText.load\<close> gives a model that lacks them one-dimensional masks of
  \<^verbatim>\<open>len(trainables.vectors)\<close> entries, for tables of two dimensions.
  \<^verbatim>\<open>init_post_load\<close> gives the n-gram mask \<^verbatim>\<open>len(wv.vectors)\<close> rows, whatever the number of
  rows of the n-gram table is. In both cases the invariant fails.
\<close>

theorem lock_masks_mismatch:
  "load_add_missing
     ((fresh_model :: byte list fasttext)
        \<lparr>wv := (FastTextKeyedVectors 3 3 6 10 True)
                 \<lparr>vocab := [[97], [98]],
                  vectors_vocab := Some (Array2 3 [[Float32 1, Float32 2, Float32 3],
                                                   [Float32 4, Float32 5, Float32 6]]),
                  vectors_ngrams := Some (Array2 3 [[Float32 7, Float32 8, Float32 9]])\<rparr>,
         trainables := (trainables fresh_model)
                 \<lparr>tr_vectors := Some (Array2 3 [[Float32 1, Float32 2, Float32 3],
                                                [Float32 4, Float32 5, Float32 6]]),
                  vectors_vocab_lockf := None, vectors_ngrams_lockf := None\<rparr>\<rparr>) =
   Inr ((fresh_model :: byte list fasttext)
        \<lparr>wv := (FastTextKeyedVectors 3 3 6 10 True)
                 \<lparr>vocab := [[97], [98]],
                  vectors_vocab := Some (Array2 3 [[Float32 1, Float32 2, Float32 3],
                                                   [Float32 4, Float32 5, Float32 6]]),
                  vectors_ngrams := Some (Array2 3 [[Float32 7, Float32 8, Float32 9]])\<rparr>,
         trainables := (trainables fresh_model)
                 \<lparr>tr_vectors := Some (Array2 3 [[Float32 1, Float32 2, Float32 3],
                                                [Float32 4, Float32 5, Float32 6]]),
                  vectors_vocab_lockf := Some (Array1 [REAL_one, REAL_one]),
                  vectors_ngrams_lockf := Some (Array1 [REAL_one, REAL_one])\<rparr>\<rparr>)
   \<and> \<not> lock_masks_match
     ((fresh_model :: byte list fasttext)
        \<lparr>wv := (FastTextKeyedVectors 3 3 6 10 True)
                 \<lparr>vocab := [[97], [98]],
                  vectors_vocab := Some (Array2 3 [[Float32 1, Float32 2, Float32 3],
                                                   [Float32 4, Float32 5, Float32 6]]),
                  vectors_ngrams := Some (Array2 3 [[Float32 7, Float32 8, Float32 9]])\<rparr>,
         trainables := (trainables fresh_model)
                 \<lparr>tr_vectors := Some (Array2 3 [[Float32 1, Float32 2, Float32 3],
                                                [Float32 4, Float32 5, Float32 6]]),
                  vectors_vocab_lockf := Some (Array1 [REAL_one, REAL_one]),
                  vectors_ngrams_lockf := Some (Array1 [REAL_one, REAL_one])\<rparr>\<rparr>)
   \<and> init_post_load (trainables (fresh_model :: byte list fasttext))
       ((fresh_model :: byte list fasttext)
          \<lparr>wv := (FastTextKeyedVectors 2 3 6 10 True)
                   \<lparr>vocab := [[97]],
                    vectors := Some (Array2 2 [[Float32 1, Float32 2]]),
                    vectors_vocab := Some (Array2 2 [[Float32 1, Float32 2]]),
                    vectors_ngrams := Some (Array2 2 [[Float32 3, Float32 4],
                                                      [Float32 5, Float32 6],
                                                      [Float32 7, Float32 8]])\<rparr>\<rparr>)
       (Array2 2 [[Float32 9, Float32 9]]) =
     Inr ((trainables (fresh_model :: byte list fasttext))
            \<lparr>vectors_lockf := Some (Array1 [REAL_one]),
             vectors_ngrams_lockf := Some (Array2 2 [[REAL_one, REAL_one]]),
             vectors_vocab_lockf := Some (Array2 2 [[REAL_one, REAL_one]]),
             syn1neg := Some (Array2 2 [[Float32 9, Float32 9]]), layer1_size := 2\<rparr>)
   \<and> \<not> lock_masks_match
       ((fresh_model :: byte list fasttext)
          \<lparr>wv := (FastTextKeyedVectors 2 3 6 10 True)
                   \<lparr>vocab := [[97]],
                    vectors := Some (Array2 2 [[Float32 1, Float32 2]]),
                    vectors_vocab := Some (Array2 2 [[Float32 1, Float32 2]]),
                    vectors_ngrams := Some (Array2 2 [[Float32 3, Float32 4],
                                                      [Float32 5, Float32 6],
                                                      [Float32 7, Float32 8]])\<rparr>,
           trainables := (trainables (fresh_model :: byte list fasttext))
            \<lparr>vectors_lockf := Some (Array1 [REAL_one]),
             vectors_ngrams_lockf := Some (Array2 2 [[REAL_one, REAL_one]]),
             vectors_vocab_lockf := Some (Array2 2 [[REAL_one, REAL_one]]),
             syn1neg := Some (Array2 2 [[Float32 9, Float32 9]]), layer1_size := 2\<rparr>\<rparr>)"
  by (simp add: load_add_missing_def init_post_load_def lock_masks_match_def fresh_model_def
      FastTextKeyedVectors_def ones1_def ones2_def numeral_2_eq_2)

subsection \<open>C8: the quantization flag\<close>

text \<open>
  Claim C8 says that the read fails when the flag says that the matrix is quantized. The
  loader drops the flag unread: a new-format matrix whose flag byte is 1 is loaded.
\<close>

theorem load_matrix_quantized_counterexample:
  "load_matrix 4 [1, 1,0,0,0,0,0,0,0, 2,0,0,0,0,0,0,0, 0,0,128,63, 0,0,0,64] True (Some 2) =
     Inr (Array2 2 [[Float32 0x3F800000, Float32 0x40000000]], [])"
  by (simp add: eval_matrix eval_stream)

text \<open>
  Claim C8 as amended: on a new-format read the loader first consumes exactly one byte, the
  quantization flag, before the row and column counts, and ignores its value: the read goes
  on as a legacy read of the bytes after it. It never fails on the value of the flag; only
  a file that ends before the flag is refused, as a short read.
\<close>

theorem load_matrix_flag_ignored:
  "load_matrix float_size (quant_input # s) True expected_vector_size =
     load_matrix float_size s False expected_vector_size
   \<and> load_matrix float_size [] True expected_vector_size = Inl StructError"
  by (simp add: load_matrix_def struct_unpack_def file_read_def)

subsection \<open>C10: an update without a vocabulary\<close>

text \<open>
  Claim C10. \<^verbatim>\<open>build_vocab\<close> with \<^verbatim>\<open>update=True\<close> on a model whose vocabulary is empty
  raises an error (\<^verbatim>\<open>RuntimeError\<close>: an online update needs a prior vocabulary), whatever the
  other arguments are, and the model is left as it was.
\<close>

theorem build_vocab_update_empty:
  assumes "length (vocab (wv self)) = 0"
  shows "build_vocab super_build_vocab self args True = Inl (RuntimeError, self)"
  using assms by (simp add: build_vocab_def)

theorem build_vocab_update_empty_witness:
  "length (vocab (wv (fresh_model :: byte list fasttext))) = 0 \<and>
   build_vocab (\<lambda>m a u. Inr ((), m)) (fresh_model :: byte list fasttext) [[[97 :: byte]]] True =
     Inl (RuntimeError, fresh_model)"
  using build_vocab_update_empty [of "fresh_model :: byte list fasttext"
      "\<lambda>m a u. Inr ((), m)" "[[[97 :: byte]]]"]
  by (simp add: fresh_model_def FastTextKeyedVectors_def)

end
